theory Spec2Isabelle
  imports Main "HOL-Library.Word"
begin

unbundle bit_operations_syntax

section \<open>The ldb data the ACL read module works on\<close>

text \<open>
  The module \<^verbatim>\<open>source4/dsdb/samdb/ldb_modules/acl_read.c\<close> filters the entries of a search
  by the access rights of the connected user.  The embedding below follows the C code
  function by function.  Memory ownership (talloc) is not part of the model, and
  allocations are taken to succeed; every other return path of the code is a branch here.
\<close>

text \<open>An \<^verbatim>\<open>ldb_val\<close> is a byte buffer; \<open>None\<close> is the value whose \<^verbatim>\<open>data\<close> pointer is NULL.\<close>

type_synonym ldb_val = "8 word list option"

text \<open>
  \<^verbatim>\<open>struct ldb_message_element\<close>, its fields \<^verbatim>\<open>flags\<close>, \<^verbatim>\<open>name\<close> and \<^verbatim>\<open>values\<close> with the
  prefix \<open>el_\<close>; \<^verbatim>\<open>num_values\<close> is the length of \<open>el_values\<close>.
\<close>

record ldb_message_element =
  el_flags :: "32 word"
  el_name :: string
  el_values :: "ldb_val list"

text \<open>\<^verbatim>\<open>struct ldb_message\<close>; \<^verbatim>\<open>num_elements\<close> is the length of \<open>elements\<close>.\<close>

record 'dn ldb_message =
  dn :: 'dn
  elements :: "ldb_message_element list"

text \<open>The return codes the module names, and one constructor for all the others.\<close>

datatype ldb_ret =
    LDB_SUCCESS
  | LDB_ERR_OPERATIONS_ERROR
  | LDB_ERR_NO_SUCH_OBJECT
  | LDB_ERR_INSUFFICIENT_ACCESS_RIGHTS
  | LDB_ERR_OTHER nat

text \<open>The two fields of \<^verbatim>\<open>struct dsdb_attribute\<close> that are read here.\<close>

record dsdb_attribute =
  lDAPDisplayName :: string
  searchFlags :: "32 word"

text \<open>
  A search request, as far as the module reads it: the fields of \<^verbatim>\<open>req->op.search\<close>, and
  the values that the accessors \<^verbatim>\<open>ldb_req_get_custom_flags\<close>, \<^verbatim>\<open>ldb_req_is_untrusted\<close>,
  \<^verbatim>\<open>ldb_request_get_control(req, LDB_CONTROL_AS_SYSTEM_OID)\<close> and
  \<^verbatim>\<open>dsdb_request_sd_flags\<close> give for it.  \<open>op_search_attrs = None\<close> is the NULL list.
\<close>

record ('dn, 'tree) ldb_request =
  op_search_base :: 'dn
  op_search_tree :: 'tree
  op_search_attrs :: "string list option"
  custom_flags :: "32 word"
  is_untrusted :: bool
  as_system :: bool
  request_sd_flags :: "32 word"
  request_explicit_sd_flags :: bool

datatype ldb_reply_type = LDB_REPLY_ENTRY | LDB_REPLY_REFERRAL | LDB_REPLY_DONE

text \<open>\<^verbatim>\<open>struct ldb_reply\<close>, without the controls and the extended response.\<close>

record 'dn ldb_reply =
  reply_error :: ldb_ret
  reply_type :: ldb_reply_type
  reply_message :: "'dn ldb_message"
  reply_referral :: string

text \<open>\<^verbatim>\<open>struct aclread_context\<close> (the module and schema handles are in the environment).\<close>

record ('dn, 'tree) aclread_context =
  req :: "('dn, 'tree) ldb_request"
  attrs :: "string list option"
  sd_flags :: "32 word"
  added_nTSecurityDescriptor :: bool
  added_instanceType :: bool
  added_objectSid :: bool
  added_objectClass :: bool
  indirsync :: bool
  last_parent_dn :: "'dn option"
  last_parent_check_ret :: ldb_ret

text \<open>\<^verbatim>\<open>struct aclread_private\<close>.\<close>

record 'sd aclread_private =
  enabled :: bool
  sd_cached :: "'sd option"
  sd_cached_blob :: ldb_val

section \<open>What the module takes from its headers and from the libraries it calls\<close>

text \<open>
  The bit masks come from headers that are not part of this file
  (\<^verbatim>\<open>ldb_module.h\<close>, \<^verbatim>\<open>security.h\<close>, \<^verbatim>\<open>samdb.h\<close>): they are parameters.
\<close>

record acl_consts =
  LDB_FLAG_INTERNAL_INACCESSIBLE_ATTRIBUTE :: "32 word"
  INSTANCE_TYPE_IS_NC_HEAD :: "32 word"
  SECINFO_OWNER :: "32 word"
  SECINFO_GROUP :: "32 word"
  SECINFO_DACL :: "32 word"
  SECINFO_SACL :: "32 word"
  SEC_STD_READ_CONTROL :: "32 word"
  SEC_FLAG_SYSTEM_SECURITY :: "32 word"
  SEC_ADS_READ_PROP :: "32 word"
  SEC_ADS_CONTROL_ACCESS :: "32 word"
  SEC_ADS_LIST :: "32 word"
  SEARCH_FLAG_CONFIDENTIAL :: "32 word"
  DSDB_ACL_CHECKS_DIRSYNC_FLAG :: "32 word"

text \<open>
  The functions the module calls in ldb, in the schema, in the security library and in
  the modules below it are parameters as well.  Each stands for the C function of the same
  name, applied to the arguments that matter here:
  \<^item> \<open>ldb_attr_cmp a b\<close> is the comparison of two attribute names (0 when they match);
  \<^item> \<open>ldb_dn_get_parent d\<close> is \<open>None\<close> when the C function returns NULL;
  \<^item> \<open>dsdb_module_check_access_on_dn d mask\<close> is the access check on the object at \<open>d\<close>
    for the user of the request (\<open>d = None\<close> is the NULL DN);
  \<^item> \<open>acl_check_access_on_attribute sd sid mask attr objectclass\<close> is the access check on
    one attribute;
  \<^item> \<open>dsdb_attribute_by_lDAPDisplayName n\<close> and \<open>dsdb_get_structural_oc_from_msg m\<close> are
    the lookups in the schema of the request, \<open>None\<close> for NULL;
  \<^item> \<open>dsdb_get_schema\<close> tells whether the request has a schema at all;
  \<^item> \<open>ndr_pull_security_descriptor b\<close> is the parsed descriptor, \<open>None\<close> on a parse error;
  \<^item> \<open>dsdb_module_search_dn d\<close> is the search for the base with the attribute
    \<^verbatim>\<open>instanceType\<close>: its return code and the first message of its result;
  \<^item> \<open>ldb_oom\<close> and \<open>ldb_operr\<close> are the codes these two functions return.
\<close>

record ('dn, 'tree, 'sd, 'sid, 'oc) acl_env =
  ldb_attr_cmp :: "string \<Rightarrow> string \<Rightarrow> int"
  ldb_dn_compare_base :: "'dn \<Rightarrow> 'dn \<Rightarrow> int"
  ldb_dn_compare :: "'dn \<Rightarrow> 'dn \<Rightarrow> int"
  ldb_dn_get_parent :: "'dn \<Rightarrow> 'dn option"
  ldb_dn_is_null :: "'dn \<Rightarrow> bool"
  ldb_dn_is_special :: "'dn \<Rightarrow> bool"
  dsdb_module_check_access_on_dn :: "'dn option \<Rightarrow> 32 word \<Rightarrow> ldb_ret"
  acl_check_access_on_attribute ::
    "'sd \<Rightarrow> 'sid option \<Rightarrow> 32 word \<Rightarrow> dsdb_attribute \<Rightarrow> 'oc \<Rightarrow> ldb_ret"
  dsdb_attribute_by_lDAPDisplayName :: "string \<Rightarrow> dsdb_attribute option"
  dsdb_get_structural_oc_from_msg :: "'dn ldb_message \<Rightarrow> 'oc option"
  dsdb_get_schema :: bool
  samdb_result_dom_sid :: "'dn ldb_message \<Rightarrow> string \<Rightarrow> 'sid option"
  ldb_msg_find_attr_as_uint :: "'dn ldb_message \<Rightarrow> string \<Rightarrow> 32 word \<Rightarrow> 32 word"
  ndr_pull_security_descriptor :: "8 word list \<Rightarrow> 'sd option"
  dsdb_attr_in_parse_tree :: "'tree \<Rightarrow> string \<Rightarrow> bool"
  dsdb_module_search_dn :: "'dn \<Rightarrow> ldb_ret \<times> 'dn ldb_message"
  dsdb_module_am_system :: bool
  ldb_oom :: ldb_ret
  ldb_operr :: ldb_ret

subsection \<open>List helpers of ldb\<close>

text \<open>
  Modelled from the spec: \<^verbatim>\<open>ldb_msg_find_element\<close> is a function of the ldb library, which
  is not among the sources.  The spec has the module "locate" the attribute of a given name
  in the entry; the model returns the first element whose name matches under
  \<open>ldb_attr_cmp\<close>.
\<close>

definition ldb_msg_find_element ::
  "('dn, 'tree, 'sd, 'sid, 'oc) acl_env \<Rightarrow> 'dn ldb_message \<Rightarrow> string
    \<Rightarrow> ldb_message_element option" where
  "ldb_msg_find_element E msg a =
     find (\<lambda>el. ldb_attr_cmp E (el_name el) a = 0) (elements msg)"

text \<open>
  Modelled from the spec: \<^verbatim>\<open>ldb_msg_remove_attr\<close> is a function of the ldb library, which
  is not among the sources.  The spec has it "strip" the named attribute from the entry;
  the model removes every element whose name matches under \<open>ldb_attr_cmp\<close> and keeps the
  others as they are, in their order.
\<close>

definition ldb_msg_remove_attr ::
  "('dn, 'tree, 'sd, 'sid, 'oc) acl_env \<Rightarrow> 'dn ldb_message \<Rightarrow> string \<Rightarrow> 'dn ldb_message" where
  "ldb_msg_remove_attr E msg a =
     msg\<lparr>elements := filter (\<lambda>el. ldb_attr_cmp E (el_name el) a \<noteq> 0) (elements msg)\<rparr>"

text \<open>
  Modelled from the spec: \<^verbatim>\<open>ldb_attr_in_list\<close> is a function of the ldb library, which is
  not among the sources.  The spec asks whether the caller "asked for" an attribute, or
  whether it is "absent" from the list; the model is membership under \<open>ldb_attr_cmp\<close>, and
  nothing is a member of the NULL list.
\<close>

definition ldb_attr_in_list ::
  "('dn, 'tree, 'sd, 'sid, 'oc) acl_env \<Rightarrow> string list option \<Rightarrow> string \<Rightarrow> bool" where
  "ldb_attr_in_list E l a =
     (case l of None \<Rightarrow> False | Some xs \<Rightarrow> list_ex (\<lambda>x. ldb_attr_cmp E x a = 0) xs)"

text \<open>
  Modelled from the spec: \<^verbatim>\<open>ldb_attr_list_copy_add\<close> is a function of the ldb library,
  which is not among the sources.  The spec has the module "append" a name to the fetch
  list; the model returns the list with the name added at its end (never NULL, since
  allocations succeed).
\<close>

definition ldb_attr_list_copy_add :: "string list option \<Rightarrow> string \<Rightarrow> string list option" where
  "ldb_attr_list_copy_add l a = Some ((case l of None \<Rightarrow> [] | Some xs \<Rightarrow> xs) @ [a])"

text \<open>
  Modelled from the spec: \<^verbatim>\<open>ldb_val_equal_exact\<close> and \<^verbatim>\<open>ldb_val_dup\<close> are functions of the
  ldb library, which is not among the sources.  The spec compares the raw encodings "by
  exact byte equality" and has the bytes "duplicated".
\<close>

definition ldb_val_bytes :: "ldb_val \<Rightarrow> 8 word list" where
  "ldb_val_bytes v = (case v of None \<Rightarrow> [] | Some bs \<Rightarrow> bs)"

definition ldb_val_equal_exact :: "ldb_val \<Rightarrow> ldb_val \<Rightarrow> bool" where
  "ldb_val_equal_exact v1 v2 = (ldb_val_bytes v1 = ldb_val_bytes v2)"

definition ldb_val_dup :: "ldb_val \<Rightarrow> ldb_val" where
  "ldb_val_dup v = v"

section \<open>The marker of an inaccessible attribute\<close>

text \<open>
  \<^verbatim>\<open>aclread_mark_inaccesslible\<close> (lines 67 to 69) sets the marker in the flags of an element;
  \<^verbatim>\<open>aclread_is_inaccessible\<close> (lines 71 to 73) tests it, any bit in common counting as true.
\<close>

definition aclread_mark_inaccesslible ::
  "acl_consts \<Rightarrow> ldb_message_element \<Rightarrow> ldb_message_element" where
  "aclread_mark_inaccesslible K el =
     el\<lparr>el_flags := el_flags el OR LDB_FLAG_INTERNAL_INACCESSIBLE_ATTRIBUTE K\<rparr>"

definition aclread_is_inaccessible :: "acl_consts \<Rightarrow> ldb_message_element \<Rightarrow> bool" where
  "aclread_is_inaccessible K el =
     (el_flags el AND LDB_FLAG_INTERNAL_INACCESSIBLE_ATTRIBUTE K \<noteq> 0)"

section \<open>The visibility of the parent, with the cache of the last parent\<close>

text \<open>
  \<^verbatim>\<open>aclread_check_parent\<close> (lines 86 to 154): the code returned, and the context with its
  cache slot.  The block at the end of the function (lines 127 to 153), which asks the
  access check and fills the slot, comes first: \<open>parent_dn0\<close> is the parent when the first
  half of the function has computed it already, and \<open>None\<close> otherwise.
\<close>

definition aclread_check_parent_fresh ::
  "acl_consts \<Rightarrow> ('dn, 'tree, 'sd, 'sid, 'oc) acl_env \<Rightarrow> ('dn, 'tree) aclread_context
    \<Rightarrow> 'dn option \<Rightarrow> 'dn ldb_message \<Rightarrow> ldb_ret \<times> ('dn, 'tree) aclread_context" where
  "aclread_check_parent_fresh K E ac parent_dn0 msg =
     (let parent_dn = (if parent_dn0 = None then ldb_dn_get_parent E (dn msg) else parent_dn0)
      in if parent_dn = None then (ldb_oom E, ac)
         else
           (let ret = dsdb_module_check_access_on_dn E parent_dn (SEC_ADS_LIST K)
            in (ret, ac\<lparr>last_parent_dn := parent_dn, last_parent_check_ret := ret\<rparr>)))"

definition aclread_check_parent ::
  "acl_consts \<Rightarrow> ('dn, 'tree, 'sd, 'sid, 'oc) acl_env \<Rightarrow> ('dn, 'tree) aclread_context
    \<Rightarrow> 'dn ldb_message \<Rightarrow> ldb_ret \<times> ('dn, 'tree) aclread_context" where
  "aclread_check_parent K E ac msg =
     (case last_parent_dn ac of
        None \<Rightarrow> aclread_check_parent_fresh K E ac None msg
      | Some lp \<Rightarrow>
          if ldb_dn_compare_base E lp (dn msg) = 0 then
            (case ldb_dn_get_parent E (dn msg) of
               None \<Rightarrow> (ldb_oom E, ac)
             | Some parent_dn \<Rightarrow>
                 if ldb_dn_compare E lp parent_dn = 0 then (last_parent_check_ret ac, ac)
                 else aclread_check_parent_fresh K E ac (Some parent_dn) msg)
          else aclread_check_parent_fresh K E ac None msg)"

section \<open>The security descriptor of an entry, with the cache of the last descriptor\<close>

text \<open>
  \<^verbatim>\<open>aclread_get_sd_from_ldb_message\<close> (lines 164 to 228): the code returned, the
  descriptor written to \<^verbatim>\<open>*sd\<close> (\<open>None\<close> while it is NULL), and the private data with its
  cache slot.
\<close>

definition aclread_get_sd_from_ldb_message ::
  "('dn, 'tree, 'sd, 'sid, 'oc) acl_env \<Rightarrow> ('dn, 'tree) aclread_context \<Rightarrow> 'sd aclread_private
    \<Rightarrow> 'dn ldb_message \<Rightarrow> ldb_ret \<times> 'sd option \<times> 'sd aclread_private" where
  "aclread_get_sd_from_ldb_message E ac private_data acl_res =
     (case ldb_msg_find_element E acl_res ''nTSecurityDescriptor'' of
        None \<Rightarrow> (LDB_ERR_INSUFFICIENT_ACCESS_RIGHTS, None, private_data)
      | Some sd_element \<Rightarrow>
          if length (el_values sd_element) \<noteq> 1 then (ldb_operr E, None, private_data)
          else if sd_cached private_data \<noteq> None \<and> sd_cached_blob private_data \<noteq> None
                  \<and> ldb_val_equal_exact (el_values sd_element ! 0) (sd_cached_blob private_data)
          then (LDB_SUCCESS, sd_cached private_data, private_data)
          else
            (case ndr_pull_security_descriptor E (ldb_val_bytes (el_values sd_element ! 0)) of
               None \<Rightarrow> (ldb_operr E, None, private_data)
             | Some sd \<Rightarrow>
                 if added_nTSecurityDescriptor ac then
                   (LDB_SUCCESS, Some sd,
                    private_data\<lparr>sd_cached_blob := el_values sd_element ! 0,
                                 sd_cached := Some sd\<rparr>)
                 else
                   (let blob = ldb_val_dup (el_values sd_element ! 0)
                    in if blob = None
                       then (ldb_operr E, None, private_data\<lparr>sd_cached_blob := blob\<rparr>)
                       else (LDB_SUCCESS, Some sd,
                             private_data\<lparr>sd_cached_blob := blob, sd_cached := Some sd\<rparr>))))"

section \<open>The callback: one reply of the search below\<close>

subsection \<open>One attribute of the entry\<close>

text \<open>
  The access mask of one attribute: the statements from \<^verbatim>\<open>if (is_sd)\<close> to the test of
  \<^verbatim>\<open>SEARCH_FLAG_CONFIDENTIAL\<close> in the loop of \<^verbatim>\<open>aclread_callback\<close> (lines 345 to 364).
\<close>

definition aclread_access_mask ::
  "acl_consts \<Rightarrow> ('dn, 'tree) aclread_context \<Rightarrow> dsdb_attribute \<Rightarrow> bool \<Rightarrow> 32 word" where
  "aclread_access_mask K ac attr is_sd =
     (let access_mask =
        (if is_sd then
           (let m0 = (0 :: 32 word);
                m1 = (if sd_flags ac AND (SECINFO_OWNER K OR SECINFO_GROUP K) \<noteq> 0
                      then m0 OR SEC_STD_READ_CONTROL K else m0);
                m2 = (if sd_flags ac AND SECINFO_DACL K \<noteq> 0
                      then m1 OR SEC_STD_READ_CONTROL K else m1);
                m3 = (if sd_flags ac AND SECINFO_SACL K \<noteq> 0
                      then m2 OR SEC_FLAG_SYSTEM_SECURITY K else m2)
            in m3)
         else SEC_ADS_READ_PROP K)
      in if searchFlags attr AND SEARCH_FLAG_CONFIDENTIAL K \<noteq> 0
         then access_mask OR SEC_ADS_CONTROL_ACCESS K else access_mask)"

text \<open>
  The first half of the body of the loop (lines 307 to 377), up to the call of the access
  check, as a function of the name \<open>nm\<close> of the element, which is all it reads: the schema
  does not know the name; the element is marked without a check (it was added by the
  module, or its mask is zero); or the check is called with a mask and returns a code.
\<close>

datatype attr_access =
    Attr_unknown
  | Attr_marked
  | Attr_checked "32 word" ldb_ret

definition aclread_attr_access ::
  "acl_consts \<Rightarrow> ('dn, 'tree, 'sd, 'sid, 'oc) acl_env \<Rightarrow> ('dn, 'tree) aclread_context
    \<Rightarrow> 'sd \<Rightarrow> 'sid option \<Rightarrow> 'oc \<Rightarrow> string \<Rightarrow> attr_access" where
  "aclread_attr_access K E ac sd sid objectclass nm =
     (case dsdb_attribute_by_lDAPDisplayName E nm of
        None \<Rightarrow> Attr_unknown
      | Some attr \<Rightarrow>
          (let is_sd = (ldb_attr_cmp E ''nTSecurityDescriptor'' nm = 0);
               is_objectsid = (ldb_attr_cmp E ''objectSid'' nm = 0);
               is_instancetype = (ldb_attr_cmp E ''instanceType'' nm = 0);
               is_objectclass = (ldb_attr_cmp E ''objectClass'' nm = 0)
           in if is_objectsid \<and> added_objectSid ac then Attr_marked
              else if is_instancetype \<and> added_instanceType ac then Attr_marked
              else if is_objectclass \<and> added_objectClass ac then Attr_marked
              else if is_sd \<and> added_nTSecurityDescriptor ac then Attr_marked
              else
                (let access_mask = aclread_access_mask K ac attr is_sd
                 in if access_mask = 0 then Attr_marked
                    else Attr_checked access_mask
                           (acl_check_access_on_attribute E sd sid access_mask attr
                              objectclass))))"

text \<open>
  How one pass through the body of the loop ends: the element is marked and the loop goes
  on, the element is left as it is and the loop goes on, the callback returns
  \<^verbatim>\<open>LDB_SUCCESS\<close> at once, the loop is left by \<^verbatim>\<open>break\<close>, or the callback fails.
\<close>

datatype attr_verdict =
    Mark_continue
  | Keep_continue
  | Return_success
  | Break_loop
  | Goto_fail ldb_ret

text \<open>
  The whole body of the loop, for the element of name \<open>nm\<close>: its first half, and what
  follows the call of the access check (lines 384 to 421).
\<close>

definition aclread_check_element ::
  "acl_consts \<Rightarrow> ('dn, 'tree, 'sd, 'sid, 'oc) acl_env \<Rightarrow> ('dn, 'tree) aclread_context
    \<Rightarrow> 'sd \<Rightarrow> 'sid option \<Rightarrow> 'oc \<Rightarrow> string \<Rightarrow> attr_verdict" where
  "aclread_check_element K E ac sd sid objectclass nm =
     (case aclread_attr_access K E ac sd sid objectclass nm of
        Attr_unknown \<Rightarrow> Goto_fail LDB_ERR_OPERATIONS_ERROR
      | Attr_marked \<Rightarrow> Mark_continue
      | Attr_checked access_mask ret \<Rightarrow>
          if ret = LDB_ERR_INSUFFICIENT_ACCESS_RIGHTS then
            (if \<not> indirsync ac then
               (if dsdb_attr_in_parse_tree E (op_search_tree (req ac)) nm
                then Return_success
                else Mark_continue)
             else
               (if dsdb_attr_in_parse_tree E (op_search_tree (req ac)) nm
                then Break_loop
                else Mark_continue))
          else if ret \<noteq> LDB_SUCCESS then Goto_fail ret
          else Keep_continue)"

subsection \<open>The loop over the elements\<close>

text \<open>
  The loop \<^verbatim>\<open>for (i=0; i < msg->num_elements; i++)\<close> of lines 306 to 422, from the index
  \<open>i\<close> on.  It ends at its end or by \<^verbatim>\<open>break\<close>, with the message as it then is (after
  \<^verbatim>\<open>ldb_msg_remove_attr\<close> in the case of \<^verbatim>\<open>break\<close>); by \<^verbatim>\<open>return LDB_SUCCESS\<close>; or by
  \<^verbatim>\<open>goto fail\<close>.
\<close>

datatype 'dn loop_result =
    Loop_end "'dn ldb_message"
  | Loop_return_success
  | Loop_fail ldb_ret

function aclread_attr_loop ::
  "acl_consts \<Rightarrow> ('dn, 'tree, 'sd, 'sid, 'oc) acl_env \<Rightarrow> ('dn, 'tree) aclread_context
    \<Rightarrow> 'sd \<Rightarrow> 'sid option \<Rightarrow> 'oc \<Rightarrow> 'dn ldb_message \<Rightarrow> nat \<Rightarrow> 'dn loop_result" where
  "aclread_attr_loop K E ac sd sid objectclass msg i =
     (if i < length (elements msg) then
        (case aclread_check_element K E ac sd sid objectclass (el_name (elements msg ! i)) of
           Mark_continue \<Rightarrow>
             aclread_attr_loop K E ac sd sid objectclass
               (msg\<lparr>elements :=
                  (elements msg)[i := aclread_mark_inaccesslible K (elements msg ! i)]\<rparr>)
               (Suc i)
         | Keep_continue \<Rightarrow> aclread_attr_loop K E ac sd sid objectclass msg (Suc i)
         | Return_success \<Rightarrow> Loop_return_success
         | Break_loop \<Rightarrow> Loop_end (ldb_msg_remove_attr E msg ''replPropertyMetaData'')
         | Goto_fail ret \<Rightarrow> Loop_fail ret)
      else Loop_end msg)"
  by pat_completeness auto
termination
  by (relation "measure (\<lambda>(K, E, ac, sd, sid, objectclass, msg, i). length (elements msg) - i)")
     auto

declare aclread_attr_loop.simps [simp del]

subsection \<open>What the callback does with a reply\<close>

text \<open>
  The callback ends in one of four calls: \<^verbatim>\<open>ldb_module_done\<close> with a code (the request is
  over), \<^verbatim>\<open>ldb_module_send_entry\<close> with a message, \<^verbatim>\<open>ldb_module_send_referral\<close>, or a plain
  \<^verbatim>\<open>return\<close> of a code with nothing sent.
\<close>

datatype 'dn cb_action =
    Module_done ldb_ret
  | Send_entry "'dn ldb_message"
  | Send_referral string
  | Return_code ldb_ret

text \<open>
  The new message built after the loop, and its sending (lines 423 to 459): the elements
  without the marker are counted, then copied in their order.
\<close>

definition aclread_send_filtered :: "acl_consts \<Rightarrow> 'dn ldb_message \<Rightarrow> 'dn cb_action" where
  "aclread_send_filtered K msg =
     (let num_of_attrs = length (filter (\<lambda>el. \<not> aclread_is_inaccessible K el) (elements msg));
          ret_msg = \<lparr>dn = dn msg,
                     elements =
                       (if num_of_attrs > 0
                        then filter (\<lambda>el. \<not> aclread_is_inaccessible K el) (elements msg)
                        else [])\<rparr>
      in Send_entry ret_msg)"

text \<open>The entry from the loop over its elements on (lines 305 to 459).\<close>

definition aclread_callback_attrs ::
  "acl_consts \<Rightarrow> ('dn, 'tree, 'sd, 'sid, 'oc) acl_env \<Rightarrow> ('dn, 'tree) aclread_context
    \<Rightarrow> 'sd \<Rightarrow> 'sid option \<Rightarrow> 'oc \<Rightarrow> 'dn ldb_message \<Rightarrow> 'dn cb_action" where
  "aclread_callback_attrs K E ac sd sid objectclass msg =
     (case aclread_attr_loop K E ac sd sid objectclass msg 0 of
        Loop_end msg' \<Rightarrow> aclread_send_filtered K msg'
      | Loop_return_success \<Rightarrow> Return_code LDB_SUCCESS
      | Loop_fail ret \<Rightarrow> Module_done ret)"

text \<open>
  The case \<^verbatim>\<open>LDB_REPLY_ENTRY\<close> (lines 256 to 459): the descriptor, the structural class,
  the SID and the instance type of the entry, the check of its parent, then its elements.
\<close>

definition aclread_callback_entry ::
  "acl_consts \<Rightarrow> ('dn, 'tree, 'sd, 'sid, 'oc) acl_env \<Rightarrow> ('dn, 'tree) aclread_context
    \<Rightarrow> 'sd aclread_private \<Rightarrow> 'dn ldb_message
    \<Rightarrow> 'dn cb_action \<times> ('dn, 'tree) aclread_context \<times> 'sd aclread_private" where
  "aclread_callback_entry K E ac p msg =
     (case aclread_get_sd_from_ldb_message E ac p msg of
        (ret, sdo, p') \<Rightarrow>
          if ret \<noteq> LDB_SUCCESS then (Module_done LDB_ERR_OPERATIONS_ERROR, ac, p')
          else
            (case sdo of
               None \<Rightarrow> (Module_done LDB_ERR_OPERATIONS_ERROR, ac, p')
             | Some sd \<Rightarrow>
                 (case dsdb_get_structural_oc_from_msg E msg of
                    None \<Rightarrow> (Module_done LDB_ERR_OPERATIONS_ERROR, ac, p')
                  | Some objectclass \<Rightarrow>
                      (let sid = samdb_result_dom_sid E msg ''objectSid'';
                           instanceType = ldb_msg_find_attr_as_uint E msg ''instanceType'' 0
                       in if \<not> ldb_dn_is_null E (dn msg)
                             \<and> \<not> (instanceType AND INSTANCE_TYPE_IS_NC_HEAD K \<noteq> 0)
                          then
                            (case aclread_check_parent K E ac msg of
                               (ret, ac') \<Rightarrow>
                                 if ret = LDB_ERR_INSUFFICIENT_ACCESS_RIGHTS
                                 then (Return_code LDB_SUCCESS, ac', p')
                                 else if ret \<noteq> LDB_SUCCESS then (Module_done ret, ac', p')
                                 else (aclread_callback_attrs K E ac' sd sid objectclass msg,
                                       ac', p'))
                          else (aclread_callback_attrs K E ac sd sid objectclass msg, ac, p')))))"

text \<open>\<^verbatim>\<open>aclread_callback\<close> (lines 231 to 471); \<open>ares = None\<close> is the NULL reply.\<close>

definition aclread_callback ::
  "acl_consts \<Rightarrow> ('dn, 'tree, 'sd, 'sid, 'oc) acl_env \<Rightarrow> ('dn, 'tree) aclread_context
    \<Rightarrow> 'sd aclread_private \<Rightarrow> 'dn ldb_reply option
    \<Rightarrow> 'dn cb_action \<times> ('dn, 'tree) aclread_context \<times> 'sd aclread_private" where
  "aclread_callback K E ac p ares =
     (case ares of
        None \<Rightarrow> (Module_done LDB_ERR_OPERATIONS_ERROR, ac, p)
      | Some a \<Rightarrow>
          if reply_error a \<noteq> LDB_SUCCESS then (Module_done (reply_error a), ac, p)
          else
            (case reply_type a of
               LDB_REPLY_ENTRY \<Rightarrow> aclread_callback_entry K E ac p (reply_message a)
             | LDB_REPLY_REFERRAL \<Rightarrow> (Send_referral (reply_referral a), ac, p)
             | LDB_REPLY_DONE \<Rightarrow> (Module_done LDB_SUCCESS, ac, p)))"

section \<open>The search entry point\<close>

text \<open>
  How \<^verbatim>\<open>aclread_search\<close> ends: the request goes down unchanged; a new request goes down
  with the attribute list and the callback context given; the function returns a code; or
  the request is ended by \<^verbatim>\<open>ldb_module_done\<close> with a code.
\<close>

datatype ('dn, 'tree) search_result =
    Next_request
  | Next_down "string list option" "('dn, 'tree) aclread_context"
  | Search_return ldb_ret
  | Search_done ldb_ret

text \<open>
  The check of the search base (lines 511 to 540); \<open>None\<close> when the function goes on after
  it.
\<close>

definition aclread_search_base ::
  "acl_consts \<Rightarrow> ('dn, 'tree, 'sd, 'sid, 'oc) acl_env \<Rightarrow> ('dn, 'tree) ldb_request
    \<Rightarrow> ('dn, 'tree) search_result option" where
  "aclread_search_base K E rq =
     (if \<not> ldb_dn_is_null E (op_search_base rq) then
        (case dsdb_module_search_dn E (op_search_base rq) of
           (ret, res_msg) \<Rightarrow>
             if ret \<noteq> LDB_SUCCESS then Some (Search_return ret)
             else
               (let instanceType = ldb_msg_find_attr_as_uint E res_msg ''instanceType'' 0
                in if instanceType \<noteq> 0 \<and> \<not> (instanceType AND INSTANCE_TYPE_IS_NC_HEAD K \<noteq> 0)
                   then
                     (let parent_dn = ldb_dn_get_parent E (op_search_base rq);
                          ret = dsdb_module_check_access_on_dn E parent_dn (SEC_ADS_LIST K)
                      in if ret = LDB_ERR_INSUFFICIENT_ACCESS_RIGHTS
                         then Some (Search_done LDB_ERR_NO_SUCH_OBJECT)
                         else if ret \<noteq> LDB_SUCCESS then Some (Search_done ret)
                         else None)
                   else None))
      else None)"

text \<open>The context after \<^verbatim>\<open>talloc_zero\<close> and the assignment of the request.\<close>

definition aclread_context_zero :: "('dn, 'tree) ldb_request \<Rightarrow> ('dn, 'tree) aclread_context" where
  "aclread_context_zero rq =
     \<lparr>req = rq, attrs = None, sd_flags = 0,
      added_nTSecurityDescriptor = False, added_instanceType = False,
      added_objectSid = False, added_objectClass = False, indirsync = False,
      last_parent_dn = None, last_parent_check_ret = LDB_SUCCESS\<rparr>"

text \<open>
  The rest of the function (lines 541 to 630): the context, the attribute list, the request
  sent down.  The construction of the new request by \<^verbatim>\<open>ldb_build_search_req_ex\<close>, an
  allocation, is taken to succeed.
\<close>

definition aclread_search_down ::
  "acl_consts \<Rightarrow> ('dn, 'tree, 'sd, 'sid, 'oc) acl_env \<Rightarrow> ('dn, 'tree) ldb_request
    \<Rightarrow> ('dn, 'tree) search_result" where
  "aclread_search_down K E rq =
     (let ac0 = (aclread_context_zero rq)
                  \<lparr>indirsync := (custom_flags rq AND DSDB_ACL_CHECKS_DIRSYNC_FLAG K \<noteq> 0)\<rparr>
      in if \<not> dsdb_get_schema E then Search_return (ldb_operr E)
         else
           (let a0 = op_search_attrs rq;
                all_attrs = (a0 = None \<or> a0 = Some [] \<or> ldb_attr_in_list E a0 ''*'');
                a1 = (if a0 = None \<or> a0 = Some [] then Some [''*''] else a0);
                ac1 = ac0\<lparr>sd_flags := request_sd_flags rq\<rparr>;
                explicit_sd_flags = request_explicit_sd_flags rq;
                need_sd = (if ldb_attr_in_list E a1 ''nTSecurityDescriptor'' then False
                           else if explicit_sd_flags \<and> all_attrs then False
                           else True);
                add_it = (\<not> all_attrs \<and> \<not> ldb_attr_in_list E a1 ''instanceType'');
                a2 = (if add_it then ldb_attr_list_copy_add a1 ''instanceType'' else a1)
            in if a2 = None then Search_return (ldb_oom E)
               else
                 (let ac2 = (if add_it then ac1\<lparr>added_instanceType := True\<rparr> else ac1);
                      add_os = (\<not> all_attrs
                                \<and> \<not> ldb_attr_in_list E (op_search_attrs rq) ''objectSid'');
                      a3 = (if add_os then ldb_attr_list_copy_add a2 ''objectSid'' else a2)
                  in if a3 = None then Search_return (ldb_oom E)
                     else
                       (let ac3 = (if add_os then ac2\<lparr>added_objectSid := True\<rparr> else ac2);
                            add_oc = (\<not> all_attrs
                                      \<and> \<not> ldb_attr_in_list E (op_search_attrs rq) ''objectClass'');
                            a4 = (if add_oc then ldb_attr_list_copy_add a3 ''objectClass''
                                  else a3)
                        in if a4 = None then Search_return (ldb_oom E)
                           else
                             (let ac4 = (if add_oc then ac3\<lparr>added_objectClass := True\<rparr>
                                         else ac3);
                                  a5 = (if need_sd
                                        then ldb_attr_list_copy_add a4 ''nTSecurityDescriptor''
                                        else a4)
                              in if a5 = None then Search_return (ldb_oom E)
                                 else
                                   (let ac5 = (if need_sd
                                               then ac4\<lparr>added_nTSecurityDescriptor := True\<rparr>
                                               else ac4);
                                        ac6 = ac5\<lparr>attrs := op_search_attrs rq\<rparr>
                                    in Next_down a5 ac6))))))"

text \<open>
  \<^verbatim>\<open>aclread_search\<close> (lines 474 to 631); \<open>p = None\<close> is the module without private data.
\<close>

definition aclread_search ::
  "acl_consts \<Rightarrow> ('dn, 'tree, 'sd, 'sid, 'oc) acl_env \<Rightarrow> 'sd aclread_private option
    \<Rightarrow> ('dn, 'tree) ldb_request \<Rightarrow> ('dn, 'tree) search_result" where
  "aclread_search K E p rq =
     (if (case p of None \<Rightarrow> True | Some pd \<Rightarrow> \<not> enabled pd) \<or> dsdb_module_am_system E
         \<or> as_system rq \<or> \<not> is_untrusted rq
      then Next_request
      else if ldb_dn_is_special E (op_search_base rq) then Next_request
      else
        (case aclread_search_base K E rq of
           Some r \<Rightarrow> r
         | None \<Rightarrow> aclread_search_down K E rq))"

section \<open>Notions used to state the properties\<close>

text \<open>An element after its pass through the body of the loop, when the loop goes on.\<close>

definition aclread_element_after ::
  "acl_consts \<Rightarrow> ('dn, 'tree, 'sd, 'sid, 'oc) acl_env \<Rightarrow> ('dn, 'tree) aclread_context
    \<Rightarrow> 'sd \<Rightarrow> 'sid option \<Rightarrow> 'oc \<Rightarrow> ldb_message_element \<Rightarrow> ldb_message_element" where
  "aclread_element_after K E ac sd sid objectclass el =
     (if aclread_check_element K E ac sd sid objectclass (el_name el) = Mark_continue
      then aclread_mark_inaccesslible K el else el)"

text \<open>The two verdicts after which the loop goes on to the next element.\<close>

definition goes_on :: "attr_verdict \<Rightarrow> bool" where
  "goes_on v = (v = Mark_continue \<or> v = Keep_continue)"

text \<open>
  The element was added to the request by the module itself: the four tests at the head
  of the loop.
\<close>

definition added_by_module ::
  "('dn, 'tree, 'sd, 'sid, 'oc) acl_env \<Rightarrow> ('dn, 'tree) aclread_context \<Rightarrow> string \<Rightarrow> bool" where
  "added_by_module E ac nm =
     (ldb_attr_cmp E ''objectSid'' nm = 0 \<and> added_objectSid ac
      \<or> ldb_attr_cmp E ''instanceType'' nm = 0 \<and> added_instanceType ac
      \<or> ldb_attr_cmp E ''objectClass'' nm = 0 \<and> added_objectClass ac
      \<or> ldb_attr_cmp E ''nTSecurityDescriptor'' nm = 0 \<and> added_nTSecurityDescriptor ac)"

text \<open>
  The required access mask in the words of the specification: for the security descriptor,
  read control if owner, group or DACL is asked for, and system security if the SACL is
  asked for; read property for any other attribute; and control access in addition for a
  confidential attribute.
\<close>

definition required_access_mask :: "acl_consts \<Rightarrow> 32 word \<Rightarrow> bool \<Rightarrow> bool \<Rightarrow> 32 word" where
  "required_access_mask K flags is_sd confidential =
     (if is_sd then
        (if flags AND (SECINFO_OWNER K OR SECINFO_GROUP K OR SECINFO_DACL K) \<noteq> 0
         then SEC_STD_READ_CONTROL K else 0)
        OR (if flags AND SECINFO_SACL K \<noteq> 0 then SEC_FLAG_SYSTEM_SECURITY K else 0)
      else SEC_ADS_READ_PROP K)
     OR (if confidential then SEC_ADS_CONTROL_ACCESS K else 0)"

text \<open>
  The check of the parent without the cache: the parent of the entry is computed and the
  access check is called on it.
\<close>

definition parent_check_uncached ::
  "acl_consts \<Rightarrow> ('dn, 'tree, 'sd, 'sid, 'oc) acl_env \<Rightarrow> 'dn ldb_message \<Rightarrow> ldb_ret" where
  "parent_check_uncached K E msg =
     (case ldb_dn_get_parent E (dn msg) of
        None \<Rightarrow> ldb_oom E
      | Some parent_dn \<Rightarrow> dsdb_module_check_access_on_dn E (Some parent_dn) (SEC_ADS_LIST K))"

text \<open>
  The verdicts of \<open>aclread_check_parent\<close> for the entries of one search, one after the
  other, each call with the context the call before it has left.
\<close>

fun aclread_check_parents ::
  "acl_consts \<Rightarrow> ('dn, 'tree, 'sd, 'sid, 'oc) acl_env \<Rightarrow> ('dn, 'tree) aclread_context
    \<Rightarrow> 'dn ldb_message list \<Rightarrow> ldb_ret list" where
  "aclread_check_parents K E ac [] = []"
| "aclread_check_parents K E ac (msg # msgs) =
     (case aclread_check_parent K E ac msg of
        (ret, ac') \<Rightarrow> ret # aclread_check_parents K E ac' msgs)"

text \<open>The slot of the parent cache holds the verdict of the access check for its DN.\<close>

definition parent_cache_valid ::
  "acl_consts \<Rightarrow> ('dn, 'tree, 'sd, 'sid, 'oc) acl_env \<Rightarrow> ('dn, 'tree) aclread_context \<Rightarrow> bool" where
  "parent_cache_valid K E ac =
     (case last_parent_dn ac of
        None \<Rightarrow> True
      | Some lp \<Rightarrow>
          last_parent_check_ret ac = dsdb_module_check_access_on_dn E (Some lp) (SEC_ADS_LIST K))"

section \<open>A small directory to run the module on\<close>

text \<open>
  Sample values for the bit masks, and a sample environment: a DN is the list of its
  components, the nearest first; the search tree is the list of the attribute names in the
  filter; attribute names match when they are equal; the user may not list the children of
  \<^verbatim>\<open>OU=hidden,DC=x\<close> and may not read the attribute \<^verbatim>\<open>secret\<close>; the check of the attribute
  \<^verbatim>\<open>broken\<close> fails with another error; the schema knows every name but \<^verbatim>\<open>unknown\<close>; the
  attribute \<^verbatim>\<open>conf\<close> is confidential.
\<close>

definition demo_consts :: acl_consts where
  "demo_consts =
     \<lparr>LDB_FLAG_INTERNAL_INACCESSIBLE_ATTRIBUTE = 0x40, INSTANCE_TYPE_IS_NC_HEAD = 0x1,
      SECINFO_OWNER = 0x1, SECINFO_GROUP = 0x2, SECINFO_DACL = 0x4, SECINFO_SACL = 0x8,
      SEC_STD_READ_CONTROL = 0x20000, SEC_FLAG_SYSTEM_SECURITY = 0x1000000,
      SEC_ADS_READ_PROP = 0x10, SEC_ADS_CONTROL_ACCESS = 0x100, SEC_ADS_LIST = 0x4,
      SEARCH_FLAG_CONFIDENTIAL = 0x80, DSDB_ACL_CHECKS_DIRSYNC_FLAG = 0x1\<rparr>"

definition demo_env :: "(string list, string list, nat, nat, string) acl_env" where
  "demo_env =
     \<lparr>ldb_attr_cmp = (\<lambda>a b. if a = b then 0 else 1),
      ldb_dn_compare_base =
        (\<lambda>b d. if length b \<le> length d \<and> drop (length d - length b) d = b then 0 else 1),
      ldb_dn_compare = (\<lambda>a b. if a = b then 0 else 1),
      ldb_dn_get_parent = (\<lambda>d. case d of [] \<Rightarrow> None | c # cs \<Rightarrow> Some cs),
      ldb_dn_is_null = (\<lambda>d. d = []),
      ldb_dn_is_special = (\<lambda>d. False),
      dsdb_module_check_access_on_dn =
        (\<lambda>d m. if d = Some [''OU=hidden'', ''DC=x''] then LDB_ERR_INSUFFICIENT_ACCESS_RIGHTS
                else if d = Some [''OU=down'', ''DC=x''] then LDB_ERR_OTHER 52
                else LDB_SUCCESS),
      acl_check_access_on_attribute =
        (\<lambda>sd sid m attr oc.
           if lDAPDisplayName attr = ''secret'' then LDB_ERR_INSUFFICIENT_ACCESS_RIGHTS
           else if lDAPDisplayName attr = ''broken'' then LDB_ERR_OTHER 80
           else LDB_SUCCESS),
      dsdb_attribute_by_lDAPDisplayName =
        (\<lambda>n. if n = ''unknown'' then None
             else Some \<lparr>lDAPDisplayName = n,
                        searchFlags = (if n = ''conf'' then 0x80 else 0)\<rparr>),
      dsdb_get_structural_oc_from_msg = (\<lambda>m. Some ''user''),
      dsdb_get_schema = True,
      samdb_result_dom_sid = (\<lambda>m a. None),
      ldb_msg_find_attr_as_uint = (\<lambda>m a d. d),
      ndr_pull_security_descriptor = (\<lambda>bs. if bs = [] then None else Some (length bs)),
      dsdb_attr_in_parse_tree = (\<lambda>t n. List.member t n),
      dsdb_module_search_dn =
        (\<lambda>d. (LDB_SUCCESS, \<lparr>dn = d, elements = []\<rparr>)),
      dsdb_module_am_system = False,
      ldb_oom = LDB_ERR_OPERATIONS_ERROR,
      ldb_operr = LDB_ERR_OPERATIONS_ERROR\<rparr>"

definition demo_el :: "string \<Rightarrow> ldb_message_element" where
  "demo_el nm = \<lparr>el_flags = 0, el_name = nm, el_values = [Some [7]]\<rparr>"

definition demo_private :: "nat aclread_private" where
  "demo_private = \<lparr>enabled = True, sd_cached = None, sd_cached_blob = None\<rparr>"

text \<open>A search for \<^verbatim>\<open>cn\<close> and \<^verbatim>\<open>secret\<close> under \<^verbatim>\<open>OU=people,DC=x\<close> with the filter on \<open>flt\<close>.\<close>

definition demo_req :: "string list \<Rightarrow> 32 word \<Rightarrow> (string list, string list) ldb_request" where
  "demo_req flt cflags =
     \<lparr>op_search_base = [''OU=people'', ''DC=x''], op_search_tree = flt,
      op_search_attrs = Some [''cn'', ''secret''], custom_flags = cflags,
      is_untrusted = True, as_system = False,
      request_sd_flags = 0xF, request_explicit_sd_flags = False\<rparr>"

text \<open>The context that \<open>aclread_search\<close> builds for this search.\<close>

definition demo_ac :: "string list \<Rightarrow> 32 word \<Rightarrow> (string list, string list) aclread_context" where
  "demo_ac flt cflags =
     \<lparr>req = demo_req flt cflags, attrs = Some [''cn'', ''secret''], sd_flags = 0xF,
      added_nTSecurityDescriptor = True, added_instanceType = True,
      added_objectSid = True, added_objectClass = True, indirsync = (cflags AND 1 \<noteq> 0),
      last_parent_dn = None, last_parent_check_ret = LDB_SUCCESS\<rparr>"

definition demo_msg :: "string list \<Rightarrow> string list \<Rightarrow> string list ldb_message" where
  "demo_msg d names = \<lparr>dn = d, elements = map demo_el names\<rparr>"

definition demo_reply :: "string list \<Rightarrow> string list \<Rightarrow> string list ldb_reply" where
  "demo_reply d names =
     \<lparr>reply_error = LDB_SUCCESS, reply_type = LDB_REPLY_ENTRY,
      reply_message = demo_msg d names, reply_referral = []\<rparr>"

text \<open>
  The same directory with a schema in which every attribute is confidential, and a context
  in which the module has added nothing and the descriptor flags are \<open>flags\<close>.
\<close>

definition conf_env :: "(string list, string list, nat, nat, string) acl_env" where
  "conf_env = demo_env\<lparr>dsdb_attribute_by_lDAPDisplayName :=
                (\<lambda>n. Some \<lparr>lDAPDisplayName = n, searchFlags = 0x80\<rparr>)\<rparr>"

definition plain_ac :: "32 word \<Rightarrow> (string list, string list) aclread_context" where
  "plain_ac flags = (aclread_context_zero (demo_req [] 0))\<lparr>sd_flags := flags\<rparr>"

text \<open>
  The request asks for all attributes: its list is absent, or empty, or holds the wildcard.
\<close>

definition request_all_attrs ::
  "('dn, 'tree, 'sd, 'sid, 'oc) acl_env \<Rightarrow> ('dn, 'tree) ldb_request \<Rightarrow> bool" where
  "request_all_attrs E rq =
     (op_search_attrs rq = None \<or> op_search_attrs rq = Some []
      \<or> ldb_attr_in_list E (op_search_attrs rq) ''*'')"

text \<open>The list of the request once an absent or empty list has become the wildcard.\<close>

definition request_attr_list :: "('dn, 'tree) ldb_request \<Rightarrow> string list" where
  "request_attr_list rq =
     (case op_search_attrs rq of None \<Rightarrow> [''*''] | Some [] \<Rightarrow> [''*''] | Some xs \<Rightarrow> xs)"

text \<open>
  The sample directory when every object has the instance type 4, and the sample search
  with another base.
\<close>

definition typed_env :: "(string list, string list, nat, nat, string) acl_env" where
  "typed_env = demo_env\<lparr>ldb_msg_find_attr_as_uint := (\<lambda>m a d. 4)\<rparr>"

definition demo_base_req :: "string list \<Rightarrow> (string list, string list) ldb_request" where
  "demo_base_req base = (demo_req [''cn''] 0)\<lparr>op_search_base := base\<rparr>"

text \<open>
  The sample directory with an access check that looks at the mask: it denies every mask
  with the bit of read property in it, on every attribute but \<^verbatim>\<open>cn\<close>, and grants the
  rest.  And the sample search when the caller asks for \<^verbatim>\<open>cn\<close> and \<^verbatim>\<open>nTSecurityDescriptor\<close>,
  with the context that \<open>aclread_search\<close> builds for it.
\<close>

definition rp_env :: "(string list, string list, nat, nat, string) acl_env" where
  "rp_env = demo_env\<lparr>acl_check_access_on_attribute :=
              (\<lambda>sd sid m attr oc.
                 if m AND 0x10 \<noteq> 0 \<and> lDAPDisplayName attr \<noteq> ''cn''
                 then LDB_ERR_INSUFFICIENT_ACCESS_RIGHTS else LDB_SUCCESS)\<rparr>"

definition sd_req :: "(string list, string list) ldb_request" where
  "sd_req = (demo_req [''cn''] 0)\<lparr>op_search_attrs := Some [''cn'', ''nTSecurityDescriptor'']\<rparr>"

definition sd_ac :: "(string list, string list) aclread_context" where
  "sd_ac = (demo_ac [''cn''] 0)\<lparr>req := sd_req, attrs := Some [''cn'', ''nTSecurityDescriptor''],
                                 added_nTSecurityDescriptor := False\<rparr>"

section \<open>The loop over the elements, as a pass over a list\<close>

lemma loop_skip_prefix:
  assumes "\<forall>e\<in>set pre. goes_on (aclread_check_element K E ac sd sid oc (el_name e))"
  shows "aclread_attr_loop K E ac sd sid oc (msg\<lparr>elements := done @ pre @ rest\<rparr>) (length done)
       = aclread_attr_loop K E ac sd sid oc
           (msg\<lparr>elements := (done @ map (aclread_element_after K E ac sd sid oc) pre) @ rest\<rparr>)
           (length done + length pre)"
  using assms
proof (induction pre arbitrary: "done")
  case Nil
  then show ?case by simp
next
  case (Cons e pre)
  have v: "goes_on (aclread_check_element K E ac sd sid oc (el_name e))"
    using Cons.prems by simp
  have others: "\<forall>e\<in>set pre. goes_on (aclread_check_element K E ac sd sid oc (el_name e))"
    using Cons.prems by simp
  have step:
    "aclread_attr_loop K E ac sd sid oc (msg\<lparr>elements := done @ (e # pre) @ rest\<rparr>) (length done)
      = aclread_attr_loop K E ac sd sid oc
          (msg\<lparr>elements := (done @ [aclread_element_after K E ac sd sid oc e]) @ pre @ rest\<rparr>)
          (length (done @ [aclread_element_after K E ac sd sid oc e]))"
    using v
    by (subst aclread_attr_loop.simps)
       (auto simp: goes_on_def aclread_element_after_def nth_append list_update_append)
  show ?case
    unfolding step
    using Cons.IH [OF others, of "done @ [aclread_element_after K E ac sd sid oc e]"]
    by simp
qed

lemma loop_all_go_on:
  assumes "\<forall>e\<in>set (elements msg). goes_on (aclread_check_element K E ac sd sid oc (el_name e))"
  shows "aclread_attr_loop K E ac sd sid oc msg 0
       = Loop_end (msg\<lparr>elements := map (aclread_element_after K E ac sd sid oc) (elements msg)\<rparr>)"
proof -
  have "aclread_attr_loop K E ac sd sid oc (msg\<lparr>elements := [] @ elements msg @ []\<rparr>)
          (length ([] :: ldb_message_element list))
      = aclread_attr_loop K E ac sd sid oc
          (msg\<lparr>elements := ([] @ map (aclread_element_after K E ac sd sid oc) (elements msg)) @ []\<rparr>)
          (length ([] :: ldb_message_element list) + length (elements msg))"
    by (rule loop_skip_prefix [OF assms])
  then show ?thesis
    by (simp add: aclread_attr_loop.simps [of _ _ _ _ _ _ _ "length (elements msg)"])
qed

lemma loop_stops_at:
  assumes pre: "\<forall>e\<in>set pre. goes_on (aclread_check_element K E ac sd sid oc (el_name e))"
      and el: "\<not> goes_on (aclread_check_element K E ac sd sid oc (el_name el))"
      and msg: "elements msg = pre @ el # rest"
  shows "aclread_attr_loop K E ac sd sid oc msg 0
       = (case aclread_check_element K E ac sd sid oc (el_name el) of
            Return_success \<Rightarrow> Loop_return_success
          | Break_loop \<Rightarrow>
              Loop_end (ldb_msg_remove_attr E
                (msg\<lparr>elements := map (aclread_element_after K E ac sd sid oc) pre @ el # rest\<rparr>)
                ''replPropertyMetaData'')
          | Goto_fail ret \<Rightarrow> Loop_fail ret
          | _ \<Rightarrow> Loop_end msg)"
proof -
  have "aclread_attr_loop K E ac sd sid oc (msg\<lparr>elements := [] @ pre @ (el # rest)\<rparr>)
          (length ([] :: ldb_message_element list))
      = aclread_attr_loop K E ac sd sid oc
          (msg\<lparr>elements := ([] @ map (aclread_element_after K E ac sd sid oc) pre) @ (el # rest)\<rparr>)
          (length ([] :: ldb_message_element list) + length pre)"
    by (rule loop_skip_prefix [OF pre])
  then have "aclread_attr_loop K E ac sd sid oc msg 0
      = aclread_attr_loop K E ac sd sid oc
          (msg\<lparr>elements := map (aclread_element_after K E ac sd sid oc) pre @ el # rest\<rparr>)
          (length pre)"
    using msg [symmetric] by simp
  also have "\<dots> = (case aclread_check_element K E ac sd sid oc (el_name el) of
            Return_success \<Rightarrow> Loop_return_success
          | Break_loop \<Rightarrow>
              Loop_end (ldb_msg_remove_attr E
                (msg\<lparr>elements := map (aclread_element_after K E ac sd sid oc) pre @ el # rest\<rparr>)
                ''replPropertyMetaData'')
          | Goto_fail ret \<Rightarrow> Loop_fail ret
          | _ \<Rightarrow> Loop_end msg)"
    using el
    by (subst aclread_attr_loop.simps)
       (auto simp: goes_on_def nth_append split: attr_verdict.splits)
  finally show ?thesis .
qed

section \<open>The callback up to the loop\<close>

lemma mark_is_inaccessible:
  "LDB_FLAG_INTERNAL_INACCESSIBLE_ATTRIBUTE K \<noteq> 0
   \<Longrightarrow> aclread_is_inaccessible K (aclread_mark_inaccesslible K el)"
  by (simp add: aclread_is_inaccessible_def aclread_mark_inaccesslible_def)

lemma mark_name [simp]: "el_name (aclread_mark_inaccesslible K el) = el_name el"
  by (simp add: aclread_mark_inaccesslible_def)

lemma element_after_name [simp]:
  "el_name (aclread_element_after K E ac sd sid oc el) = el_name el"
  by (simp add: aclread_element_after_def)

lemma send_filtered_eq:
  "aclread_send_filtered K m
     = Send_entry \<lparr>dn = dn m, elements = filter (\<lambda>el. \<not> aclread_is_inaccessible K el) (elements m)\<rparr>"
  by (simp add: aclread_send_filtered_def Let_def)

lemma access_mask_cache [simp]:
  "aclread_access_mask K (ac\<lparr>last_parent_dn := a, last_parent_check_ret := b\<rparr>) attr is_sd
     = aclread_access_mask K ac attr is_sd"
  by (simp add: aclread_access_mask_def)

lemma attr_access_cache [simp]:
  "aclread_attr_access K E (ac\<lparr>last_parent_dn := a, last_parent_check_ret := b\<rparr>) sd sid oc nm
     = aclread_attr_access K E ac sd sid oc nm"
  by (auto simp: aclread_attr_access_def Let_def split: option.splits)

lemma check_element_cache [simp]:
  "aclread_check_element K E (ac\<lparr>last_parent_dn := a, last_parent_check_ret := b\<rparr>) sd sid oc nm
     = aclread_check_element K E ac sd sid oc nm"
  by (simp add: aclread_check_element_def split: attr_access.splits)

lemma attr_loop_cache [simp]:
  "aclread_attr_loop K E (ac\<lparr>last_parent_dn := a, last_parent_check_ret := b\<rparr>) sd sid oc msg i
     = aclread_attr_loop K E ac sd sid oc msg i"
proof (induction "length (elements msg) - i" arbitrary: msg i)
  case 0
  then show ?case
    by (subst aclread_attr_loop.simps, subst (2) aclread_attr_loop.simps) simp
next
  case (Suc n)
  have a: "n = length (elements msg) - Suc i" using Suc.hyps(2) by simp
  have b: "n = length (elements (msg\<lparr>elements :=
                  (elements msg)[i := aclread_mark_inaccesslible K (elements msg ! i)]\<rparr>)) - Suc i"
    using Suc.hyps(2) by simp
  show ?case
    by (subst aclread_attr_loop.simps, subst (2) aclread_attr_loop.simps)
       (simp add: Suc.hyps(1) [OF a] Suc.hyps(1) [OF b] split: attr_verdict.splits)
qed

lemma callback_attrs_cache [simp]:
  "aclread_callback_attrs K E (ac\<lparr>last_parent_dn := a, last_parent_check_ret := b\<rparr>) sd sid oc msg
     = aclread_callback_attrs K E ac sd sid oc msg"
  by (simp add: aclread_callback_attrs_def)

lemma check_parent_context:
  "snd (aclread_check_parent K E ac msg) = ac
   \<or> (\<exists>a b. snd (aclread_check_parent K E ac msg)
              = ac\<lparr>last_parent_dn := a, last_parent_check_ret := b\<rparr>)"
  by (auto simp: aclread_check_parent_def aclread_check_parent_fresh_def Let_def
           split: option.splits)

lemma callback_attrs_after_parent:
  assumes "aclread_check_parent K E ac msg = (r, ac')"
  shows "aclread_callback_attrs K E ac' sd sid oc msg'
       = aclread_callback_attrs K E ac sd sid oc msg'"
  using check_parent_context [of K E ac msg] assms by (elim disjE exE) simp_all

text \<open>
  The entry reaches the loop when its descriptor and its class are found and its parent is
  visible.
\<close>

lemma callback_entry_visible:
  assumes "aclread_get_sd_from_ldb_message E ac p msg = (LDB_SUCCESS, Some sd, p')"
      and "dsdb_get_structural_oc_from_msg E msg = Some oc"
      and "ldb_dn_is_null E (dn msg)
           \<or> ldb_msg_find_attr_as_uint E msg ''instanceType'' 0 AND INSTANCE_TYPE_IS_NC_HEAD K \<noteq> 0
           \<or> fst (aclread_check_parent K E ac msg) = LDB_SUCCESS"
  shows "fst (aclread_callback_entry K E ac p msg)
       = aclread_callback_attrs K E ac sd (samdb_result_dom_sid E msg ''objectSid'') oc msg"
  using assms
  by (auto simp: aclread_callback_entry_def Let_def callback_attrs_after_parent split: prod.splits)

lemma callback_entry_send:
  assumes "fst (aclread_callback_entry K E ac p msg) = Send_entry ret_msg"
  shows "\<exists>sd oc p'. aclread_get_sd_from_ldb_message E ac p msg = (LDB_SUCCESS, Some sd, p')
           \<and> dsdb_get_structural_oc_from_msg E msg = Some oc
           \<and> aclread_callback_attrs K E ac sd (samdb_result_dom_sid E msg ''objectSid'') oc msg
               = Send_entry ret_msg"
  using assms
  by (auto simp: aclread_callback_entry_def Let_def callback_attrs_after_parent
           split: prod.splits option.splits if_splits)

lemma callback_send:
  assumes "fst (aclread_callback K E ac p ares) = Send_entry ret_msg"
  shows "\<exists>a. ares = Some a \<and> fst (aclread_callback_entry K E ac p (reply_message a)) = Send_entry ret_msg"
  using assms
  by (auto simp: aclread_callback_def split: option.splits if_splits ldb_reply_type.splits)

section \<open>The callback from the loop on\<close>

lemma first_stop:
  assumes "\<not> (\<forall>e\<in>set xs. P e)"
  shows "\<exists>pre el rest. xs = pre @ el # rest \<and> \<not> P el \<and> (\<forall>e\<in>set pre. P e)"
proof -
  from assms have "\<exists>x\<in>set xs. \<not> P x" by simp
  from split_list_first_prop [OF this] show ?thesis by blast
qed

lemma normal_mode_no_break:
  "\<not> indirsync ac \<Longrightarrow> aclread_check_element K E ac sd sid oc nm \<noteq> Break_loop"
  by (simp add: aclread_check_element_def split: attr_access.splits)

lemma callback_attrs_all_go_on:
  assumes "\<forall>e\<in>set (elements msg). goes_on (aclread_check_element K E ac sd sid oc (el_name e))"
  shows "aclread_callback_attrs K E ac sd sid oc msg
       = Send_entry \<lparr>dn = dn msg,
                     elements = filter (\<lambda>el. \<not> aclread_is_inaccessible K el)
                                  (map (aclread_element_after K E ac sd sid oc) (elements msg))\<rparr>"
  by (simp add: aclread_callback_attrs_def loop_all_go_on [OF assms] send_filtered_eq)

lemma callback_attrs_stops_at:
  assumes "\<forall>e\<in>set pre. goes_on (aclread_check_element K E ac sd sid oc (el_name e))"
      and "\<not> goes_on (aclread_check_element K E ac sd sid oc (el_name el))"
      and "elements msg = pre @ el # rest"
  shows "aclread_callback_attrs K E ac sd sid oc msg
       = (case aclread_check_element K E ac sd sid oc (el_name el) of
            Return_success \<Rightarrow> Return_code LDB_SUCCESS
          | Break_loop \<Rightarrow>
              Send_entry \<lparr>dn = dn msg,
                elements = filter (\<lambda>el. \<not> aclread_is_inaccessible K el)
                  (filter (\<lambda>el. ldb_attr_cmp E (el_name el) ''replPropertyMetaData'' \<noteq> 0)
                     (map (aclread_element_after K E ac sd sid oc) pre @ el # rest))\<rparr>
          | Goto_fail ret \<Rightarrow> Module_done ret
          | _ \<Rightarrow> aclread_send_filtered K msg)"
  by (simp add: aclread_callback_attrs_def loop_stops_at [OF assms] send_filtered_eq
        ldb_msg_remove_attr_def split: attr_verdict.splits)

lemma callback_attrs_send_normal:
  assumes send: "aclread_callback_attrs K E ac sd sid oc msg = Send_entry ret_msg"
      and normal: "\<not> indirsync ac"
  shows "(\<forall>e\<in>set (elements msg). goes_on (aclread_check_element K E ac sd sid oc (el_name e)))
       \<and> ret_msg = \<lparr>dn = dn msg,
                     elements = filter (\<lambda>el. \<not> aclread_is_inaccessible K el)
                                  (map (aclread_element_after K E ac sd sid oc) (elements msg))\<rparr>"
proof (cases "\<forall>e\<in>set (elements msg). goes_on (aclread_check_element K E ac sd sid oc (el_name e))")
  case True
  then show ?thesis using send by (simp add: callback_attrs_all_go_on)
next
  case False
  from first_stop [OF False] obtain pre el rest where
    split: "elements msg = pre @ el # rest"
    and stop: "\<not> goes_on (aclread_check_element K E ac sd sid oc (el_name el))"
    and pre: "\<forall>e\<in>set pre. goes_on (aclread_check_element K E ac sd sid oc (el_name e))"
    by blast
  have "aclread_check_element K E ac sd sid oc (el_name el) \<noteq> Break_loop"
    by (rule normal_mode_no_break [OF normal])
  with stop send callback_attrs_stops_at [OF pre stop split]
  have False by (auto simp: goes_on_def split: attr_verdict.splits)
  then show ?thesis ..
qed

lemma denied_normal_verdict:
  assumes "\<not> indirsync ac"
      and "dsdb_attribute_by_lDAPDisplayName E nm = Some attr"
      and "acl_check_access_on_attribute E sd sid
             (aclread_access_mask K ac attr (ldb_attr_cmp E ''nTSecurityDescriptor'' nm = 0))
             attr oc = LDB_ERR_INSUFFICIENT_ACCESS_RIGHTS"
  shows "aclread_check_element K E ac sd sid oc nm = Mark_continue
       \<or> aclread_check_element K E ac sd sid oc nm = Return_success"
  using assms
  by (auto simp: aclread_check_element_def aclread_attr_access_def Let_def)

lemma callback_entry_reply:
  assumes "reply_error a = LDB_SUCCESS" and "reply_type a = LDB_REPLY_ENTRY"
  shows "aclread_callback K E ac p (Some a) = aclread_callback_entry K E ac p (reply_message a)"
  using assms by (simp add: aclread_callback_def)

lemma denied_verdict:
  assumes "aclread_attr_access K E ac sd sid oc nm
             = Attr_checked m LDB_ERR_INSUFFICIENT_ACCESS_RIGHTS"
  shows "aclread_check_element K E ac sd sid oc nm
       = (if dsdb_attr_in_parse_tree E (op_search_tree (req ac)) nm
          then (if indirsync ac then Break_loop else Return_success)
          else Mark_continue)"
  using assms by (simp add: aclread_check_element_def)

lemma normal_mode_verdicts:
  assumes "\<not> indirsync ac"
      and "\<not> goes_on (aclread_check_element K E ac sd sid oc nm)"
  shows "aclread_check_element K E ac sd sid oc nm = Return_success
       \<or> (\<exists>r. aclread_check_element K E ac sd sid oc nm = Goto_fail r)"
  using assms normal_mode_no_break [OF assms(1), of K E sd sid oc nm]
  by (cases "aclread_check_element K E ac sd sid oc nm") (simp_all add: goes_on_def)

text \<open>The access check matters only at the attributes it is called on.\<close>

lemma attr_access_other_check:
  assumes "\<forall>attr m. dsdb_attribute_by_lDAPDisplayName E nm = Some attr
             \<longrightarrow> f sd sid m attr oc = acl_check_access_on_attribute E sd sid m attr oc"
  shows "aclread_attr_access K (E\<lparr>acl_check_access_on_attribute := f\<rparr>) ac sd sid oc nm
       = aclread_attr_access K E ac sd sid oc nm"
  using assms by (auto simp: aclread_attr_access_def Let_def split: option.splits)

lemma check_element_other_check:
  assumes "\<forall>attr m. dsdb_attribute_by_lDAPDisplayName E nm = Some attr
             \<longrightarrow> f sd sid m attr oc = acl_check_access_on_attribute E sd sid m attr oc"
  shows "aclread_check_element K (E\<lparr>acl_check_access_on_attribute := f\<rparr>) ac sd sid oc nm
       = aclread_check_element K E ac sd sid oc nm"
  using attr_access_other_check [of E nm f sd sid oc K ac] assms
  by (simp add: aclread_check_element_def)

lemma get_sd_other_check [simp]:
  "aclread_get_sd_from_ldb_message (E\<lparr>acl_check_access_on_attribute := f\<rparr>) ac p msg
     = aclread_get_sd_from_ldb_message E ac p msg"
  by (simp add: aclread_get_sd_from_ldb_message_def ldb_msg_find_element_def
        cong: option.case_cong if_cong)

lemma check_parent_other_check [simp]:
  "aclread_check_parent K (E\<lparr>acl_check_access_on_attribute := f\<rparr>) ac msg
     = aclread_check_parent K E ac msg"
  by (simp add: aclread_check_parent_def aclread_check_parent_fresh_def
        cong: option.case_cong if_cong)

text \<open>The access mask, in the words of the specification.\<close>

lemma and_or_nonzero:
  "(x AND (a OR b) \<noteq> 0) = (x AND a \<noteq> 0 \<or> x AND b \<noteq> (0 :: 32 word))"
  by (simp add: bit.conj_disj_distrib or_eq_0_iff)

lemma access_mask_required:
  "aclread_access_mask K ac attr is_sd
     = required_access_mask K (sd_flags ac) is_sd
         (searchFlags attr AND SEARCH_FLAG_CONFIDENTIAL K \<noteq> 0)"
  by (simp add: aclread_access_mask_def required_access_mask_def Let_def and_or_nonzero)

text \<open>The cache of the last parent.\<close>

lemma check_parent_fresh_correct:
  assumes "parent_dn0 = None \<or> parent_dn0 = ldb_dn_get_parent E (dn msg)"
  shows "fst (aclread_check_parent_fresh K E ac parent_dn0 msg) = parent_check_uncached K E msg
       \<and> (parent_cache_valid K E ac
            \<longrightarrow> parent_cache_valid K E (snd (aclread_check_parent_fresh K E ac parent_dn0 msg)))"
  using assms
  by (auto simp: aclread_check_parent_fresh_def parent_check_uncached_def parent_cache_valid_def
        Let_def split: option.splits)

lemma check_parent_correct:
  assumes valid: "parent_cache_valid K E ac"
      and same: "\<forall>a b. ldb_dn_compare E a b = 0
             \<longrightarrow> dsdb_module_check_access_on_dn E (Some a) (SEC_ADS_LIST K)
                 = dsdb_module_check_access_on_dn E (Some b) (SEC_ADS_LIST K)"
  shows "fst (aclread_check_parent K E ac msg) = parent_check_uncached K E msg
       \<and> parent_cache_valid K E (snd (aclread_check_parent K E ac msg))"
proof (cases "last_parent_dn ac")
  case None
  then show ?thesis
    using valid check_parent_fresh_correct [of None E msg K ac]
    by (simp add: aclread_check_parent_def)
next
  case (Some lp)
  show ?thesis
  proof (cases "ldb_dn_compare_base E lp (dn msg) = 0")
    case False
    then show ?thesis
      using Some valid check_parent_fresh_correct [of None E msg K ac]
      by (simp add: aclread_check_parent_def)
  next
    case True
    show ?thesis
    proof (cases "ldb_dn_get_parent E (dn msg)")
      case None
      then show ?thesis
        using Some True valid
        by (simp add: aclread_check_parent_def parent_check_uncached_def)
    next
      case (Some parent_dn)
      note parent = Some
      show ?thesis
      proof (cases "ldb_dn_compare E lp parent_dn = 0")
        case True
        with same have "dsdb_module_check_access_on_dn E (Some lp) (SEC_ADS_LIST K)
                 = dsdb_module_check_access_on_dn E (Some parent_dn) (SEC_ADS_LIST K)"
          by blast
        then show ?thesis
          using \<open>last_parent_dn ac = Some lp\<close> \<open>ldb_dn_compare_base E lp (dn msg) = 0\<close>
            parent True valid
          by (simp add: aclread_check_parent_def parent_check_uncached_def
                parent_cache_valid_def)
      next
        case False
        then show ?thesis
          using \<open>last_parent_dn ac = Some lp\<close> \<open>ldb_dn_compare_base E lp (dn msg) = 0\<close>
            parent valid check_parent_fresh_correct [of "Some parent_dn" E msg K ac]
          by (simp add: aclread_check_parent_def)
      qed
    qed
  qed
qed

lemma check_parents_correct:
  assumes "parent_cache_valid K E ac"
      and "\<forall>a b. ldb_dn_compare E a b = 0
             \<longrightarrow> dsdb_module_check_access_on_dn E (Some a) (SEC_ADS_LIST K)
                 = dsdb_module_check_access_on_dn E (Some b) (SEC_ADS_LIST K)"
  shows "aclread_check_parents K E ac msgs = map (parent_check_uncached K E) msgs"
  using assms(1)
proof (induction msgs arbitrary: ac)
  case Nil
  then show ?case by simp
next
  case (Cons msg msgs)
  from check_parent_correct [OF Cons.prems assms(2), of msg]
  have r: "fst (aclread_check_parent K E ac msg) = parent_check_uncached K E msg"
    and v: "parent_cache_valid K E (snd (aclread_check_parent K E ac msg))"
    by simp_all
  show ?case
    using r Cons.IH [OF v] by (simp add: split_beta)
qed

lemma callback_entry_cache_valid:
  assumes "parent_cache_valid K E ac"
      and "\<forall>a b. ldb_dn_compare E a b = 0
             \<longrightarrow> dsdb_module_check_access_on_dn E (Some a) (SEC_ADS_LIST K)
                 = dsdb_module_check_access_on_dn E (Some b) (SEC_ADS_LIST K)"
  shows "parent_cache_valid K E (fst (snd (aclread_callback_entry K E ac p msg)))"
  using assms(1) check_parent_correct [OF assms, of msg]
  by (auto simp: aclread_callback_entry_def Let_def split: prod.splits option.splits)

lemma callback_cache_valid:
  assumes "parent_cache_valid K E ac"
      and "\<forall>a b. ldb_dn_compare E a b = 0
             \<longrightarrow> dsdb_module_check_access_on_dn E (Some a) (SEC_ADS_LIST K)
                 = dsdb_module_check_access_on_dn E (Some b) (SEC_ADS_LIST K)"
  shows "parent_cache_valid K E (fst (snd (aclread_callback K E ac p ares)))"
  using assms(1) callback_entry_cache_valid [OF assms]
  by (auto simp: aclread_callback_def split: option.splits ldb_reply_type.splits)

text \<open>The request that \<open>aclread_search\<close> sends down.\<close>

lemma search_base_result:
  "aclread_search_base K E rq = Some r \<Longrightarrow> (\<exists>c. r = Search_return c \<or> r = Search_done c)"
  by (auto simp: aclread_search_base_def Let_def split: if_splits prod.splits)

lemma search_next_down:
  assumes "aclread_search K E p rq = Next_down d ac"
  shows "aclread_search_down K E rq = Next_down d ac"
  using assms search_base_result [of K E rq]
  by (auto simp: aclread_search_def split: if_splits option.splits)

lemma search_down_eq:
  assumes "dsdb_get_schema E"
  shows "aclread_search_down K E rq
       = Next_down
           (Some (request_attr_list rq
                  @ (if \<not> request_all_attrs E rq
                        \<and> \<not> ldb_attr_in_list E (op_search_attrs rq) ''instanceType''
                     then [''instanceType''] else [])
                  @ (if \<not> request_all_attrs E rq
                        \<and> \<not> ldb_attr_in_list E (op_search_attrs rq) ''objectSid''
                     then [''objectSid''] else [])
                  @ (if \<not> request_all_attrs E rq
                        \<and> \<not> ldb_attr_in_list E (op_search_attrs rq) ''objectClass''
                     then [''objectClass''] else [])
                  @ (if \<not> ldb_attr_in_list E (Some (request_attr_list rq)) ''nTSecurityDescriptor''
                        \<and> \<not> (request_explicit_sd_flags rq \<and> request_all_attrs E rq)
                     then [''nTSecurityDescriptor''] else [])))
           \<lparr>req = rq, attrs = op_search_attrs rq, sd_flags = request_sd_flags rq,
              added_nTSecurityDescriptor =
                (\<not> ldb_attr_in_list E (Some (request_attr_list rq)) ''nTSecurityDescriptor''
                 \<and> \<not> (request_explicit_sd_flags rq \<and> request_all_attrs E rq)),
              added_instanceType =
                (\<not> request_all_attrs E rq
                 \<and> \<not> ldb_attr_in_list E (op_search_attrs rq) ''instanceType''),
              added_objectSid =
                (\<not> request_all_attrs E rq
                 \<and> \<not> ldb_attr_in_list E (op_search_attrs rq) ''objectSid''),
              added_objectClass =
                (\<not> request_all_attrs E rq
                 \<and> \<not> ldb_attr_in_list E (op_search_attrs rq) ''objectClass''),
              indirsync = (custom_flags rq AND DSDB_ACL_CHECKS_DIRSYNC_FLAG K \<noteq> 0),
              last_parent_dn = None, last_parent_check_ret = LDB_SUCCESS\<rparr>"
proof (cases "op_search_attrs rq")
  case None
  then show ?thesis
    using assms
    by (simp add: aclread_search_down_def request_all_attrs_def request_attr_list_def
          aclread_context_zero_def ldb_attr_list_copy_add_def Let_def)
next
  case (Some xs)
  show ?thesis
  proof (cases xs)
    case Nil
    then show ?thesis
      using assms Some
      by (simp add: aclread_search_down_def request_all_attrs_def request_attr_list_def
            aclread_context_zero_def ldb_attr_list_copy_add_def Let_def)
  next
    case (Cons x xs')
    show ?thesis
    proof (cases "ldb_attr_in_list E (Some (x # xs')) ''*''")
      case True
      then show ?thesis
        using assms Some Cons
        by (simp add: aclread_search_down_def request_all_attrs_def request_attr_list_def
              aclread_context_zero_def ldb_attr_list_copy_add_def Let_def)
    next
      case False
      then show ?thesis
        using assms Some Cons
        by (simp add: aclread_search_down_def request_all_attrs_def request_attr_list_def
              aclread_context_zero_def ldb_attr_list_copy_add_def Let_def)
    qed
  qed
qed

lemma search_down_result:
  assumes "aclread_search_down K E rq = Next_down d ac"
  shows "ac = \<lparr>req = rq, attrs = op_search_attrs rq, sd_flags = request_sd_flags rq,
              added_nTSecurityDescriptor =
                (\<not> ldb_attr_in_list E (Some (request_attr_list rq)) ''nTSecurityDescriptor''
                 \<and> \<not> (request_explicit_sd_flags rq \<and> request_all_attrs E rq)),
              added_instanceType =
                (\<not> request_all_attrs E rq
                 \<and> \<not> ldb_attr_in_list E (op_search_attrs rq) ''instanceType''),
              added_objectSid =
                (\<not> request_all_attrs E rq
                 \<and> \<not> ldb_attr_in_list E (op_search_attrs rq) ''objectSid''),
              added_objectClass =
                (\<not> request_all_attrs E rq
                 \<and> \<not> ldb_attr_in_list E (op_search_attrs rq) ''objectClass''),
              indirsync = (custom_flags rq AND DSDB_ACL_CHECKS_DIRSYNC_FLAG K \<noteq> 0),
              last_parent_dn = None, last_parent_check_ret = LDB_SUCCESS\<rparr>
       \<and> d = Some (request_attr_list rq
                    @ (if added_instanceType ac then [''instanceType''] else [])
                    @ (if added_objectSid ac then [''objectSid''] else [])
                    @ (if added_objectClass ac then [''objectClass''] else [])
                    @ (if added_nTSecurityDescriptor ac then [''nTSecurityDescriptor''] else []))"
proof -
  have schema: "dsdb_get_schema E"
    using assms by (cases "dsdb_get_schema E") (simp_all add: aclread_search_down_def Let_def)
  from assms [unfolded search_down_eq [OF schema]]
  have d: "d = Some (request_attr_list rq
                  @ (if \<not> request_all_attrs E rq
                        \<and> \<not> ldb_attr_in_list E (op_search_attrs rq) ''instanceType''
                     then [''instanceType''] else [])
                  @ (if \<not> request_all_attrs E rq
                        \<and> \<not> ldb_attr_in_list E (op_search_attrs rq) ''objectSid''
                     then [''objectSid''] else [])
                  @ (if \<not> request_all_attrs E rq
                        \<and> \<not> ldb_attr_in_list E (op_search_attrs rq) ''objectClass''
                     then [''objectClass''] else [])
                  @ (if \<not> ldb_attr_in_list E (Some (request_attr_list rq)) ''nTSecurityDescriptor''
                        \<and> \<not> (request_explicit_sd_flags rq \<and> request_all_attrs E rq)
                     then [''nTSecurityDescriptor''] else []))"
    and ac: "ac = \<lparr>req = rq, attrs = op_search_attrs rq, sd_flags = request_sd_flags rq,
              added_nTSecurityDescriptor =
                (\<not> ldb_attr_in_list E (Some (request_attr_list rq)) ''nTSecurityDescriptor''
                 \<and> \<not> (request_explicit_sd_flags rq \<and> request_all_attrs E rq)),
              added_instanceType =
                (\<not> request_all_attrs E rq
                 \<and> \<not> ldb_attr_in_list E (op_search_attrs rq) ''instanceType''),
              added_objectSid =
                (\<not> request_all_attrs E rq
                 \<and> \<not> ldb_attr_in_list E (op_search_attrs rq) ''objectSid''),
              added_objectClass =
                (\<not> request_all_attrs E rq
                 \<and> \<not> ldb_attr_in_list E (op_search_attrs rq) ''objectClass''),
              indirsync = (custom_flags rq AND DSDB_ACL_CHECKS_DIRSYNC_FLAG K \<noteq> 0),
              last_parent_dn = None, last_parent_check_ret = LDB_SUCCESS\<rparr>"
    by simp_all
  show ?thesis
    apply (rule conjI [OF ac])
    apply (subst d)
    apply (subst ac)+
    apply simp
    done
qed


lemma search_down_fields:
  assumes "aclread_search_down K E rq = Next_down d ac"
  shows "added_nTSecurityDescriptor ac
           = (\<not> ldb_attr_in_list E (Some (request_attr_list rq)) ''nTSecurityDescriptor''
              \<and> \<not> (request_explicit_sd_flags rq \<and> request_all_attrs E rq))"
    and "added_instanceType ac
           = (\<not> request_all_attrs E rq
              \<and> \<not> ldb_attr_in_list E (op_search_attrs rq) ''instanceType'')"
    and "added_objectSid ac
           = (\<not> request_all_attrs E rq
              \<and> \<not> ldb_attr_in_list E (op_search_attrs rq) ''objectSid'')"
    and "added_objectClass ac
           = (\<not> request_all_attrs E rq
              \<and> \<not> ldb_attr_in_list E (op_search_attrs rq) ''objectClass'')"
    and "indirsync ac = (custom_flags rq AND DSDB_ACL_CHECKS_DIRSYNC_FLAG K \<noteq> 0)"
    and "last_parent_dn ac = None"
    and "d = Some (request_attr_list rq
                    @ (if added_instanceType ac then [''instanceType''] else [])
                    @ (if added_objectSid ac then [''objectSid''] else [])
                    @ (if added_objectClass ac then [''objectClass''] else [])
                    @ (if added_nTSecurityDescriptor ac then [''nTSecurityDescriptor''] else []))"
proof -
  note r = search_down_result [OF assms]
  from r have eq: "ac = \<lparr>req = rq, attrs = op_search_attrs rq, sd_flags = request_sd_flags rq,
              added_nTSecurityDescriptor =
                (\<not> ldb_attr_in_list E (Some (request_attr_list rq)) ''nTSecurityDescriptor''
                 \<and> \<not> (request_explicit_sd_flags rq \<and> request_all_attrs E rq)),
              added_instanceType =
                (\<not> request_all_attrs E rq
                 \<and> \<not> ldb_attr_in_list E (op_search_attrs rq) ''instanceType''),
              added_objectSid =
                (\<not> request_all_attrs E rq
                 \<and> \<not> ldb_attr_in_list E (op_search_attrs rq) ''objectSid''),
              added_objectClass =
                (\<not> request_all_attrs E rq
                 \<and> \<not> ldb_attr_in_list E (op_search_attrs rq) ''objectClass''),
              indirsync = (custom_flags rq AND DSDB_ACL_CHECKS_DIRSYNC_FLAG K \<noteq> 0),
              last_parent_dn = None, last_parent_check_ret = LDB_SUCCESS\<rparr>"
    by (rule conjunct1)
  show "added_nTSecurityDescriptor ac
           = (\<not> ldb_attr_in_list E (Some (request_attr_list rq)) ''nTSecurityDescriptor''
              \<and> \<not> (request_explicit_sd_flags rq \<and> request_all_attrs E rq))"
    by (subst eq) simp
  show "added_instanceType ac
           = (\<not> request_all_attrs E rq
              \<and> \<not> ldb_attr_in_list E (op_search_attrs rq) ''instanceType'')"
    by (subst eq) simp
  show "added_objectSid ac
           = (\<not> request_all_attrs E rq
              \<and> \<not> ldb_attr_in_list E (op_search_attrs rq) ''objectSid'')"
    by (subst eq) simp
  show "added_objectClass ac
           = (\<not> request_all_attrs E rq
              \<and> \<not> ldb_attr_in_list E (op_search_attrs rq) ''objectClass'')"
    by (subst eq) simp
  show "indirsync ac = (custom_flags rq AND DSDB_ACL_CHECKS_DIRSYNC_FLAG K \<noteq> 0)"
    by (subst eq) simp
  show "last_parent_dn ac = None"
    by (subst eq) simp
  from r show "d = Some (request_attr_list rq
                    @ (if added_instanceType ac then [''instanceType''] else [])
                    @ (if added_objectSid ac then [''objectSid''] else [])
                    @ (if added_objectClass ac then [''objectClass''] else [])
                    @ (if added_nTSecurityDescriptor ac then [''nTSecurityDescriptor''] else []))"
    by (rule conjunct2)
qed

lemma in_list_request_attr_list:
  assumes "ldb_attr_cmp E ''*'' a \<noteq> 0"
  shows "ldb_attr_in_list E (Some (request_attr_list rq)) a
       = ldb_attr_in_list E (op_search_attrs rq) a"
  using assms
  by (simp add: request_attr_list_def ldb_attr_in_list_def split: option.splits list.splits)

lemma in_list_request_attr_list_requested:
  assumes "ldb_attr_in_list E (op_search_attrs rq) a"
  shows "ldb_attr_in_list E (Some (request_attr_list rq)) a"
  using assms
  by (auto simp: request_attr_list_def ldb_attr_in_list_def split: option.splits list.splits)

text \<open>An entry that is sent when the loop was not left by \<^verbatim>\<open>break\<close>.\<close>

lemma callback_attrs_send_no_break:
  assumes send: "aclread_callback_attrs K E ac sd sid oc msg = Send_entry ret_msg"
      and nobreak: "\<forall>e\<in>set (elements msg).
                      aclread_check_element K E ac sd sid oc (el_name e) \<noteq> Break_loop"
  shows "(\<forall>e\<in>set (elements msg). goes_on (aclread_check_element K E ac sd sid oc (el_name e)))
       \<and> ret_msg = \<lparr>dn = dn msg,
                     elements = filter (\<lambda>el. \<not> aclread_is_inaccessible K el)
                                  (map (aclread_element_after K E ac sd sid oc) (elements msg))\<rparr>"
proof (cases "\<forall>e\<in>set (elements msg). goes_on (aclread_check_element K E ac sd sid oc (el_name e))")
  case True
  then show ?thesis using send by (simp add: callback_attrs_all_go_on)
next
  case False
  from first_stop [OF False] obtain pre el rest where
    split: "elements msg = pre @ el # rest"
    and stop: "\<not> goes_on (aclread_check_element K E ac sd sid oc (el_name el))"
    and pre: "\<forall>e\<in>set pre. goes_on (aclread_check_element K E ac sd sid oc (el_name e))"
    by blast
  have "aclread_check_element K E ac sd sid oc (el_name el) \<noteq> Break_loop"
    using nobreak split by simp
  with stop send callback_attrs_stops_at [OF pre stop split]
  have False by (auto simp: goes_on_def split: attr_verdict.splits)
  then show ?thesis ..
qed

lemma added_by_module_marked:
  assumes "added_by_module E ac nm"
      and "goes_on (aclread_check_element K E ac sd sid oc nm)"
  shows "aclread_check_element K E ac sd sid oc nm = Mark_continue"
  using assms
  by (auto simp: added_by_module_def aclread_check_element_def aclread_attr_access_def
        goes_on_def Let_def split: option.splits)

lemma added_by_module_cache [simp]:
  "added_by_module E (ac\<lparr>last_parent_dn := a, last_parent_check_ret := b\<rparr>) nm
     = added_by_module E ac nm"
  by (simp add: added_by_module_def)

text \<open>The access mask written out.\<close>

lemma literal_access_mask:
  "aclread_access_mask K ac attr is_sd
     = (if is_sd then
          (if sd_flags ac AND (SECINFO_OWNER K OR SECINFO_GROUP K OR SECINFO_DACL K) \<noteq> 0
           then SEC_STD_READ_CONTROL K else 0)
          OR (if sd_flags ac AND SECINFO_SACL K \<noteq> 0 then SEC_FLAG_SYSTEM_SECURITY K else 0)
          OR (if searchFlags attr AND SEARCH_FLAG_CONFIDENTIAL K \<noteq> 0
              then SEC_ADS_CONTROL_ACCESS K else 0)
        else SEC_ADS_READ_PROP K
             OR (if searchFlags attr AND SEARCH_FLAG_CONFIDENTIAL K \<noteq> 0
                 then SEC_ADS_CONTROL_ACCESS K else 0))"
  by (simp add: access_mask_required required_access_mask_def ac_simps)

section \<open>The properties\<close>

subsection \<open>Denied attributes\<close>

text \<open>
  C1, as the code has it.  Outside of dirsync mode: if the callback forwards a message for
  an entry, and the access check denies the mask required for an attribute of the entry,
  then the forwarded message, which carries the DN of the entry, has no element of that
  name.  The required mask is read property, with control access for a confidential
  attribute, for every attribute but \<^verbatim>\<open>nTSecurityDescriptor\<close>; for \<^verbatim>\<open>nTSecurityDescriptor\<close> it
  is read control when the descriptor flags ask for owner, group or DACL, with system
  security when they ask for the SACL, and with control access when the attribute is
  confidential.
\<close>

theorem denied_attribute_not_returned:
  assumes send: "fst (aclread_callback K E ac p ares) = Send_entry ret_msg"
      and ares: "ares = Some a"
      and normal: "\<not> indirsync ac"
      and flag: "LDB_FLAG_INTERNAL_INACCESSIBLE_ATTRIBUTE K \<noteq> 0"
      and sd: "aclread_get_sd_from_ldb_message E ac p (reply_message a) = (r, Some sd, p')"
      and oc: "dsdb_get_structural_oc_from_msg E (reply_message a) = Some oc"
      and el: "el \<in> set (elements (reply_message a))"
      and attr: "dsdb_attribute_by_lDAPDisplayName E (el_name el) = Some attr"
      and denied: "acl_check_access_on_attribute E sd
             (samdb_result_dom_sid E (reply_message a) ''objectSid'')
             (if ldb_attr_cmp E ''nTSecurityDescriptor'' (el_name el) = 0 then
                (if sd_flags ac AND (SECINFO_OWNER K OR SECINFO_GROUP K OR SECINFO_DACL K) \<noteq> 0
                 then SEC_STD_READ_CONTROL K else 0)
                OR (if sd_flags ac AND SECINFO_SACL K \<noteq> 0
                    then SEC_FLAG_SYSTEM_SECURITY K else 0)
                OR (if searchFlags attr AND SEARCH_FLAG_CONFIDENTIAL K \<noteq> 0
                    then SEC_ADS_CONTROL_ACCESS K else 0)
              else SEC_ADS_READ_PROP K
                   OR (if searchFlags attr AND SEARCH_FLAG_CONFIDENTIAL K \<noteq> 0
                       then SEC_ADS_CONTROL_ACCESS K else 0))
             attr oc = LDB_ERR_INSUFFICIENT_ACCESS_RIGHTS"
  shows "dn ret_msg = dn (reply_message a)
       \<and> (\<forall>e\<in>set (elements ret_msg). el_name e \<noteq> el_name el)"
proof -
  let ?msg = "reply_message a"
  let ?sid = "samdb_result_dom_sid E ?msg ''objectSid''"
  have denied': "acl_check_access_on_attribute E sd ?sid
             (aclread_access_mask K ac attr
                (ldb_attr_cmp E ''nTSecurityDescriptor'' (el_name el) = 0))
             attr oc = LDB_ERR_INSUFFICIENT_ACCESS_RIGHTS"
    using denied unfolding literal_access_mask .
  from callback_send [OF send] ares
  have "fst (aclread_callback_entry K E ac p ?msg) = Send_entry ret_msg" by simp
  from callback_entry_send [OF this] sd oc
  have attrs: "aclread_callback_attrs K E ac sd ?sid oc ?msg = Send_entry ret_msg" by auto
  from callback_attrs_send_normal [OF attrs normal]
  have all: "\<forall>e\<in>set (elements ?msg). goes_on (aclread_check_element K E ac sd ?sid oc (el_name e))"
    and ret: "ret_msg = \<lparr>dn = dn ?msg,
                     elements = filter (\<lambda>el. \<not> aclread_is_inaccessible K el)
                                  (map (aclread_element_after K E ac sd ?sid oc) (elements ?msg))\<rparr>"
    by simp_all
  have v: "aclread_check_element K E ac sd ?sid oc (el_name el) = Mark_continue"
    using denied_normal_verdict [OF normal attr denied'] all el
    by (auto simp: goes_on_def)
  have "el_name e \<noteq> el_name el" if e: "e \<in> set (elements ret_msg)" for e
  proof
    assume same: "el_name e = el_name el"
    from e ret obtain e0 where e0: "e0 \<in> set (elements ?msg)"
      and ee: "e = aclread_element_after K E ac sd ?sid oc e0"
      and acc: "\<not> aclread_is_inaccessible K e"
      by auto
    from same ee have "el_name e0 = el_name el" by simp
    with v ee have "e = aclread_mark_inaccesslible K e0"
      by (simp add: aclread_element_after_def)
    with acc mark_is_inaccessible [OF flag] show False by simp
  qed
  then show ?thesis using ret by simp
qed

theorem denied_attribute_not_returned_witness:
  "fst (aclread_callback demo_consts rp_env (demo_ac [''cn''] 0) demo_private
          (Some (demo_reply [''CN=u'', ''OU=people'', ''DC=x'']
                   [''cn'', ''secret'', ''conf'', ''objectSid'', ''nTSecurityDescriptor''])))
     = Send_entry \<lparr>dn = [''CN=u'', ''OU=people'', ''DC=x''], elements = [demo_el ''cn'']\<rparr>
   \<and> acl_check_access_on_attribute rp_env 1 None 0x10
         \<lparr>lDAPDisplayName = ''secret'', searchFlags = 0\<rparr> ''user''
       = LDB_ERR_INSUFFICIENT_ACCESS_RIGHTS
   \<and> acl_check_access_on_attribute rp_env 1 None 0x110
         \<lparr>lDAPDisplayName = ''conf'', searchFlags = 0x80\<rparr> ''user''
       = LDB_ERR_INSUFFICIENT_ACCESS_RIGHTS
   \<and> ''secret'' \<notin> set (map el_name [demo_el ''cn''])
   \<and> ''conf'' \<notin> set (map el_name [demo_el ''cn''])"
proof -
  let ?K = demo_consts and ?E = rp_env
  let ?ac = "demo_ac [''cn''] 0"
  let ?a = "demo_reply [''CN=u'', ''OU=people'', ''DC=x'']
              [''cn'', ''secret'', ''conf'', ''objectSid'', ''nTSecurityDescriptor'']"
  let ?ret = "\<lparr>dn = [''CN=u'', ''OU=people'', ''DC=x''], elements = [demo_el ''cn'']\<rparr>"
  let ?secret = "\<lparr>lDAPDisplayName = ''secret'', searchFlags = 0\<rparr>"
  let ?conf = "\<lparr>lDAPDisplayName = ''conf'', searchFlags = 0x80\<rparr>"
  have send: "fst (aclread_callback ?K ?E ?ac demo_private (Some ?a)) = Send_entry ?ret"
    by code_simp
  have normal: "\<not> indirsync ?ac" by code_simp
  have flag: "LDB_FLAG_INTERNAL_INACCESSIBLE_ATTRIBUTE ?K \<noteq> 0" by code_simp
  have sd: "aclread_get_sd_from_ldb_message ?E ?ac demo_private (reply_message ?a)
              = (LDB_SUCCESS, Some 1,
                 \<lparr>enabled = True, sd_cached = Some 1, sd_cached_blob = Some [7]\<rparr>)"
    by code_simp
  have oc: "dsdb_get_structural_oc_from_msg ?E (reply_message ?a) = Some ''user''"
    by code_simp
  have el1: "demo_el ''secret'' \<in> set (elements (reply_message ?a))" by code_simp
  have el2: "demo_el ''conf'' \<in> set (elements (reply_message ?a))" by code_simp
  have attr1: "dsdb_attribute_by_lDAPDisplayName ?E (el_name (demo_el ''secret'')) = Some ?secret"
    by code_simp
  have attr2: "dsdb_attribute_by_lDAPDisplayName ?E (el_name (demo_el ''conf'')) = Some ?conf"
    by code_simp
  have d1: "acl_check_access_on_attribute ?E 1 None 0x10 ?secret ''user''
              = LDB_ERR_INSUFFICIENT_ACCESS_RIGHTS" by code_simp
  have d2: "acl_check_access_on_attribute ?E 1 None 0x110 ?conf ''user''
              = LDB_ERR_INSUFFICIENT_ACCESS_RIGHTS" by code_simp
  have denied1: "acl_check_access_on_attribute ?E 1
             (samdb_result_dom_sid ?E (reply_message ?a) ''objectSid'')
             (if ldb_attr_cmp ?E ''nTSecurityDescriptor'' (el_name (demo_el ''secret'')) = 0 then
                (if sd_flags ?ac AND (SECINFO_OWNER ?K OR SECINFO_GROUP ?K OR SECINFO_DACL ?K) \<noteq> 0
                 then SEC_STD_READ_CONTROL ?K else 0)
                OR (if sd_flags ?ac AND SECINFO_SACL ?K \<noteq> 0
                    then SEC_FLAG_SYSTEM_SECURITY ?K else 0)
                OR (if searchFlags ?secret AND SEARCH_FLAG_CONFIDENTIAL ?K \<noteq> 0
                    then SEC_ADS_CONTROL_ACCESS ?K else 0)
              else SEC_ADS_READ_PROP ?K
                   OR (if searchFlags ?secret AND SEARCH_FLAG_CONFIDENTIAL ?K \<noteq> 0
                       then SEC_ADS_CONTROL_ACCESS ?K else 0))
             ?secret ''user'' = LDB_ERR_INSUFFICIENT_ACCESS_RIGHTS"
    by code_simp
  have denied2: "acl_check_access_on_attribute ?E 1
             (samdb_result_dom_sid ?E (reply_message ?a) ''objectSid'')
             (if ldb_attr_cmp ?E ''nTSecurityDescriptor'' (el_name (demo_el ''conf'')) = 0 then
                (if sd_flags ?ac AND (SECINFO_OWNER ?K OR SECINFO_GROUP ?K OR SECINFO_DACL ?K) \<noteq> 0
                 then SEC_STD_READ_CONTROL ?K else 0)
                OR (if sd_flags ?ac AND SECINFO_SACL ?K \<noteq> 0
                    then SEC_FLAG_SYSTEM_SECURITY ?K else 0)
                OR (if searchFlags ?conf AND SEARCH_FLAG_CONFIDENTIAL ?K \<noteq> 0
                    then SEC_ADS_CONTROL_ACCESS ?K else 0)
              else SEC_ADS_READ_PROP ?K
                   OR (if searchFlags ?conf AND SEARCH_FLAG_CONFIDENTIAL ?K \<noteq> 0
                       then SEC_ADS_CONTROL_ACCESS ?K else 0))
             ?conf ''user'' = LDB_ERR_INSUFFICIENT_ACCESS_RIGHTS"
    by code_simp
  have nm1: "el_name (demo_el ''secret'') = ''secret''" by code_simp
  have nm2: "el_name (demo_el ''conf'') = ''conf''" by code_simp
  from denied_attribute_not_returned [OF send refl normal flag sd oc el1 attr1 denied1]
  have "\<forall>e\<in>set (elements ?ret). el_name e \<noteq> ''secret''"
    unfolding nm1 by simp
  then have r1: "''secret'' \<notin> set (map el_name [demo_el ''cn''])" by auto
  from denied_attribute_not_returned [OF send refl normal flag sd oc el2 attr2 denied2]
  have "\<forall>e\<in>set (elements ?ret). el_name e \<noteq> ''conf''"
    unfolding nm2 by simp
  then have r2: "''conf'' \<notin> set (map el_name [demo_el ''cn''])" by auto
  show ?thesis using send d1 d2 r1 r2 by simp
qed

text \<open>
  Read property is not what is required of \<^verbatim>\<open>nTSecurityDescriptor\<close>: when the caller asks
  for the descriptor and the access check denies read property on it but grants read
  control and system security, the descriptor is in the forwarded message.
\<close>

theorem descriptor_returned_without_read_property:
  "aclread_search demo_consts rp_env (Some demo_private) sd_req
     = Next_down
         (Some [''cn'', ''nTSecurityDescriptor'', ''instanceType'', ''objectSid'',
                ''objectClass''])
         sd_ac
   \<and> \<not> indirsync sd_ac
   \<and> dsdb_attribute_by_lDAPDisplayName rp_env ''nTSecurityDescriptor''
       = Some \<lparr>lDAPDisplayName = ''nTSecurityDescriptor'', searchFlags = 0\<rparr>
   \<and> acl_check_access_on_attribute rp_env 1 None (SEC_ADS_READ_PROP demo_consts)
         \<lparr>lDAPDisplayName = ''nTSecurityDescriptor'', searchFlags = 0\<rparr> ''user''
       = LDB_ERR_INSUFFICIENT_ACCESS_RIGHTS
   \<and> fst (aclread_callback demo_consts rp_env sd_ac demo_private
          (Some (demo_reply [''CN=u'', ''OU=people'', ''DC=x'']
                   [''cn'', ''nTSecurityDescriptor'', ''instanceType'', ''objectSid'',
                    ''objectClass''])))
     = Send_entry \<lparr>dn = [''CN=u'', ''OU=people'', ''DC=x''],
         elements = [demo_el ''cn'', demo_el ''nTSecurityDescriptor'']\<rparr>"
  by code_simp

subsection \<open>An entry whose attributes are all marked\<close>

text \<open>
  C10.  If the entry reaches the loop (its descriptor and class are found, and its parent is
  visible or is not checked) and the body of the loop marks every one of its elements
  inaccessible, the entry is not suppressed: a message with the DN of the entry and no
  element is sent to the caller.
\<close>

theorem all_marked_entry_still_sent:
  assumes err: "reply_error a = LDB_SUCCESS"
      and entry: "reply_type a = LDB_REPLY_ENTRY"
      and flag: "LDB_FLAG_INTERNAL_INACCESSIBLE_ATTRIBUTE K \<noteq> 0"
      and sd: "aclread_get_sd_from_ldb_message E ac p (reply_message a) = (LDB_SUCCESS, Some sd, p')"
      and oc: "dsdb_get_structural_oc_from_msg E (reply_message a) = Some oc"
      and visible: "ldb_dn_is_null E (dn (reply_message a))
           \<or> ldb_msg_find_attr_as_uint E (reply_message a) ''instanceType'' 0
               AND INSTANCE_TYPE_IS_NC_HEAD K \<noteq> 0
           \<or> fst (aclread_check_parent K E ac (reply_message a)) = LDB_SUCCESS"
      and marked: "\<forall>e\<in>set (elements (reply_message a)).
             aclread_check_element K E ac sd
               (samdb_result_dom_sid E (reply_message a) ''objectSid'') oc (el_name e)
             = Mark_continue"
  shows "fst (aclread_callback K E ac p (Some a))
       = Send_entry \<lparr>dn = dn (reply_message a), elements = []\<rparr>"
proof -
  let ?msg = "reply_message a"
  let ?sid = "samdb_result_dom_sid E ?msg ''objectSid''"
  have go: "\<forall>e\<in>set (elements ?msg). goes_on (aclread_check_element K E ac sd ?sid oc (el_name e))"
    using marked by (simp add: goes_on_def)
  have "filter (\<lambda>el. \<not> aclread_is_inaccessible K el)
          (map (aclread_element_after K E ac sd ?sid oc) (elements ?msg)) = []"
    using marked mark_is_inaccessible [OF flag]
    by (auto simp: filter_empty_conv aclread_element_after_def)
  then show ?thesis
    by (simp add: callback_entry_reply [OF err entry]
          callback_entry_visible [OF sd oc visible] callback_attrs_all_go_on [OF go])
qed

theorem all_marked_entry_still_sent_witness:
  "aclread_check_element demo_consts demo_env (demo_ac [''cn''] 0) 1 None ''user'' ''secret''
     = Mark_continue
   \<and> aclread_check_element demo_consts demo_env (demo_ac [''cn''] 0) 1 None ''user'' ''objectSid''
     = Mark_continue
   \<and> aclread_check_element demo_consts demo_env (demo_ac [''cn''] 0) 1 None ''user''
       ''nTSecurityDescriptor'' = Mark_continue
   \<and> fst (aclread_callback demo_consts demo_env (demo_ac [''cn''] 0) demo_private
          (Some (demo_reply [''CN=u'', ''OU=people'', ''DC=x'']
                   [''secret'', ''objectSid'', ''nTSecurityDescriptor''])))
     = Send_entry \<lparr>dn = [''CN=u'', ''OU=people'', ''DC=x''], elements = []\<rparr>"
proof -
  let ?ac = "demo_ac [''cn''] 0"
  let ?a = "demo_reply [''CN=u'', ''OU=people'', ''DC=x'']
              [''secret'', ''objectSid'', ''nTSecurityDescriptor'']"
  have err: "reply_error ?a = LDB_SUCCESS" by code_simp
  have entry: "reply_type ?a = LDB_REPLY_ENTRY" by code_simp
  have flag: "LDB_FLAG_INTERNAL_INACCESSIBLE_ATTRIBUTE demo_consts \<noteq> 0" by code_simp
  have sd: "aclread_get_sd_from_ldb_message demo_env ?ac demo_private (reply_message ?a)
              = (LDB_SUCCESS, Some 1,
                 \<lparr>enabled = True, sd_cached = Some 1, sd_cached_blob = Some [7]\<rparr>)"
    by code_simp
  have oc: "dsdb_get_structural_oc_from_msg demo_env (reply_message ?a) = Some ''user''"
    by code_simp
  have vis: "fst (aclread_check_parent demo_consts demo_env ?ac (reply_message ?a)) = LDB_SUCCESS"
    by code_simp
  have v1: "aclread_check_element demo_consts demo_env ?ac 1 None ''user'' ''secret''
              = Mark_continue" by code_simp
  have v2: "aclread_check_element demo_consts demo_env ?ac 1 None ''user'' ''objectSid''
              = Mark_continue" by code_simp
  have v3: "aclread_check_element demo_consts demo_env ?ac 1 None ''user''
              ''nTSecurityDescriptor'' = Mark_continue" by code_simp
  have sid: "samdb_result_dom_sid demo_env (reply_message ?a) ''objectSid'' = None"
    by code_simp
  have els: "map el_name (elements (reply_message ?a))
               = [''secret'', ''objectSid'', ''nTSecurityDescriptor'']"
    by code_simp
  have marked: "\<forall>e\<in>set (elements (reply_message ?a)).
             aclread_check_element demo_consts demo_env ?ac 1
               (samdb_result_dom_sid demo_env (reply_message ?a) ''objectSid'') ''user'' (el_name e)
             = Mark_continue"
  proof
    fix e assume "e \<in> set (elements (reply_message ?a))"
    then have "el_name e \<in> set (map el_name (elements (reply_message ?a)))" by simp
    then have "el_name e \<in> {''secret'', ''objectSid'', ''nTSecurityDescriptor''}"
      unfolding els by simp
    then show "aclread_check_element demo_consts demo_env ?ac 1
               (samdb_result_dom_sid demo_env (reply_message ?a) ''objectSid'') ''user'' (el_name e)
             = Mark_continue"
      unfolding sid using v1 v2 v3 by auto
  qed
  have dn: "dn (reply_message ?a) = [''CN=u'', ''OU=people'', ''DC=x'']" by code_simp
  from all_marked_entry_still_sent [OF err entry flag sd oc disjI2 [OF disjI2 [OF vis]] marked]
  show ?thesis using v1 v2 v3 unfolding dn by simp
qed

subsection \<open>The parent of an entry\<close>

text \<open>
  C3.  For an entry whose DN is not null and which is not the head of a naming context
  (and whose descriptor and class are found, so that the check of the parent is reached):
  if the check of the parent returns insufficient access rights, the callback returns
  success and sends nothing, neither the entry nor the end of the request; if it returns
  any other code but success, the request is ended with that code.
\<close>

theorem parent_denial_drops_entry_only:
  assumes err: "reply_error a = LDB_SUCCESS"
      and entry: "reply_type a = LDB_REPLY_ENTRY"
      and sd: "aclread_get_sd_from_ldb_message E ac p (reply_message a) = (LDB_SUCCESS, Some sd, p')"
      and oc: "dsdb_get_structural_oc_from_msg E (reply_message a) = Some oc"
      and not_null: "\<not> ldb_dn_is_null E (dn (reply_message a))"
      and not_head: "ldb_msg_find_attr_as_uint E (reply_message a) ''instanceType'' 0
               AND INSTANCE_TYPE_IS_NC_HEAD K = 0"
  shows "(fst (aclread_check_parent K E ac (reply_message a)) = LDB_ERR_INSUFFICIENT_ACCESS_RIGHTS
          \<longrightarrow> fst (aclread_callback K E ac p (Some a)) = Return_code LDB_SUCCESS)
       \<and> (fst (aclread_check_parent K E ac (reply_message a)) \<noteq> LDB_ERR_INSUFFICIENT_ACCESS_RIGHTS
          \<and> fst (aclread_check_parent K E ac (reply_message a)) \<noteq> LDB_SUCCESS
          \<longrightarrow> fst (aclread_callback K E ac p (Some a))
                = Module_done (fst (aclread_check_parent K E ac (reply_message a))))"
  using sd oc not_null not_head
  by (auto simp: callback_entry_reply [OF err entry] aclread_callback_entry_def Let_def
           split: prod.splits)

theorem parent_denial_drops_entry_only_witness:
  "fst (aclread_check_parent demo_consts demo_env (demo_ac [''cn''] 0)
          (demo_msg [''CN=u'', ''OU=hidden'', ''DC=x''] [''cn'', ''nTSecurityDescriptor'']))
     = LDB_ERR_INSUFFICIENT_ACCESS_RIGHTS
   \<and> fst (aclread_callback demo_consts demo_env (demo_ac [''cn''] 0) demo_private
          (Some (demo_reply [''CN=u'', ''OU=hidden'', ''DC=x''] [''cn'', ''nTSecurityDescriptor''])))
     = Return_code LDB_SUCCESS
   \<and> fst (aclread_check_parent demo_consts demo_env (demo_ac [''cn''] 0)
          (demo_msg [''CN=u'', ''OU=down'', ''DC=x''] [''cn'', ''nTSecurityDescriptor'']))
     = LDB_ERR_OTHER 52
   \<and> fst (aclread_callback demo_consts demo_env (demo_ac [''cn''] 0) demo_private
          (Some (demo_reply [''CN=u'', ''OU=down'', ''DC=x''] [''cn'', ''nTSecurityDescriptor''])))
     = Module_done (LDB_ERR_OTHER 52)"
proof -
  let ?ac = "demo_ac [''cn''] 0"
  let ?a = "demo_reply [''CN=u'', ''OU=hidden'', ''DC=x''] [''cn'', ''nTSecurityDescriptor'']"
  let ?b = "demo_reply [''CN=u'', ''OU=down'', ''DC=x''] [''cn'', ''nTSecurityDescriptor'']"
  let ?p' = "\<lparr>enabled = True, sd_cached = Some (1::nat), sd_cached_blob = Some [7]\<rparr>"
  have ma: "reply_message ?a = demo_msg [''CN=u'', ''OU=hidden'', ''DC=x''] [''cn'', ''nTSecurityDescriptor'']"
    by (simp add: demo_reply_def)
  have mb: "reply_message ?b = demo_msg [''CN=u'', ''OU=down'', ''DC=x''] [''cn'', ''nTSecurityDescriptor'']"
    by (simp add: demo_reply_def)
  have erra: "reply_error ?a = LDB_SUCCESS" and errb: "reply_error ?b = LDB_SUCCESS"
    by code_simp+
  have enta: "reply_type ?a = LDB_REPLY_ENTRY" and entb: "reply_type ?b = LDB_REPLY_ENTRY"
    by code_simp+
  have sda: "aclread_get_sd_from_ldb_message demo_env ?ac demo_private (reply_message ?a)
               = (LDB_SUCCESS, Some 1, ?p')" by code_simp
  have sdb: "aclread_get_sd_from_ldb_message demo_env ?ac demo_private (reply_message ?b)
               = (LDB_SUCCESS, Some 1, ?p')" by code_simp
  have oca: "dsdb_get_structural_oc_from_msg demo_env (reply_message ?a) = Some ''user''"
    by code_simp
  have ocb: "dsdb_get_structural_oc_from_msg demo_env (reply_message ?b) = Some ''user''"
    by code_simp
  have nna: "\<not> ldb_dn_is_null demo_env (dn (reply_message ?a))" by code_simp
  have nnb: "\<not> ldb_dn_is_null demo_env (dn (reply_message ?b))" by code_simp
  have nha: "ldb_msg_find_attr_as_uint demo_env (reply_message ?a) ''instanceType'' 0
               AND INSTANCE_TYPE_IS_NC_HEAD demo_consts = 0" by code_simp
  have nhb: "ldb_msg_find_attr_as_uint demo_env (reply_message ?b) ''instanceType'' 0
               AND INSTANCE_TYPE_IS_NC_HEAD demo_consts = 0" by code_simp
  have ca: "fst (aclread_check_parent demo_consts demo_env ?ac (reply_message ?a))
              = LDB_ERR_INSUFFICIENT_ACCESS_RIGHTS" by code_simp
  have cb: "fst (aclread_check_parent demo_consts demo_env ?ac (reply_message ?b))
              = LDB_ERR_OTHER 52" by code_simp
  from parent_denial_drops_entry_only [OF erra enta sda oca nna nha] ca
  have ra: "fst (aclread_callback demo_consts demo_env ?ac demo_private (Some ?a))
              = Return_code LDB_SUCCESS" by simp
  from parent_denial_drops_entry_only [OF errb entb sdb ocb nnb nhb] cb
  have rb: "fst (aclread_callback demo_consts demo_env ?ac demo_private (Some ?b))
              = Module_done (LDB_ERR_OTHER 52)" by simp
  show ?thesis using ca cb ra rb unfolding ma mb by simp
qed

subsection \<open>A denied attribute and the search filter\<close>

text \<open>
  C4.  Outside of dirsync mode, for an entry that reaches the loop and an element \<open>el\<close> of
  it on which the access check is called and returns insufficient access rights: if the
  name of \<open>el\<close> is a term of the search filter (and no element before \<open>el\<close> makes the
  callback fail), the callback returns success and sends nothing; if the name is not a term
  of the filter, the element is marked and the loop goes on, and when the other elements
  let the loop go on too, the entry is sent without \<open>el\<close>, the other elements being kept
  or dropped by their own verdicts.
\<close>

theorem denied_filter_attribute_suppresses_entry:
  assumes err: "reply_error a = LDB_SUCCESS"
      and entry: "reply_type a = LDB_REPLY_ENTRY"
      and normal: "\<not> indirsync ac"
      and flag: "LDB_FLAG_INTERNAL_INACCESSIBLE_ATTRIBUTE K \<noteq> 0"
      and sd: "aclread_get_sd_from_ldb_message E ac p (reply_message a) = (LDB_SUCCESS, Some sd, p')"
      and oc: "dsdb_get_structural_oc_from_msg E (reply_message a) = Some oc"
      and visible: "ldb_dn_is_null E (dn (reply_message a))
           \<or> ldb_msg_find_attr_as_uint E (reply_message a) ''instanceType'' 0
               AND INSTANCE_TYPE_IS_NC_HEAD K \<noteq> 0
           \<or> fst (aclread_check_parent K E ac (reply_message a)) = LDB_SUCCESS"
      and sid: "sid = samdb_result_dom_sid E (reply_message a) ''objectSid''"
      and split: "elements (reply_message a) = pre @ el # rest"
      and denied: "aclread_attr_access K E ac sd sid oc (el_name el)
                     = Attr_checked m LDB_ERR_INSUFFICIENT_ACCESS_RIGHTS"
  shows "(dsdb_attr_in_parse_tree E (op_search_tree (req ac)) (el_name el)
          \<and> (\<forall>e\<in>set pre. \<forall>r. aclread_check_element K E ac sd sid oc (el_name e) \<noteq> Goto_fail r)
          \<longrightarrow> fst (aclread_callback K E ac p (Some a)) = Return_code LDB_SUCCESS)
       \<and> (\<not> dsdb_attr_in_parse_tree E (op_search_tree (req ac)) (el_name el)
          \<longrightarrow> aclread_check_element K E ac sd sid oc (el_name el) = Mark_continue
              \<and> ((\<forall>e\<in>set (pre @ rest).
                     goes_on (aclread_check_element K E ac sd sid oc (el_name e)))
                  \<longrightarrow> fst (aclread_callback K E ac p (Some a))
                       = Send_entry \<lparr>dn = dn (reply_message a),
                           elements =
                             filter (\<lambda>el. \<not> aclread_is_inaccessible K el)
                               (map (aclread_element_after K E ac sd sid oc) pre)
                             @ filter (\<lambda>el. \<not> aclread_is_inaccessible K el)
                                 (map (aclread_element_after K E ac sd sid oc) rest)\<rparr>))"
proof -
  let ?msg = "reply_message a"
  let ?v = "\<lambda>e. aclread_check_element K E ac sd sid oc (el_name e)"
  have cb: "fst (aclread_callback K E ac p (Some a))
              = aclread_callback_attrs K E ac sd sid oc ?msg"
    unfolding sid
    by (simp add: callback_entry_reply [OF err entry] callback_entry_visible [OF sd oc visible])
  have part1: "aclread_callback_attrs K E ac sd sid oc ?msg = Return_code LDB_SUCCESS"
    if tree: "dsdb_attr_in_parse_tree E (op_search_tree (req ac)) (el_name el)"
      and nofail: "\<forall>e\<in>set pre. \<forall>r. ?v e \<noteq> Goto_fail r"
  proof (cases "\<forall>e\<in>set pre. goes_on (?v e)")
    case True
    have v: "?v el = Return_success"
      using denied_verdict [OF denied] tree normal by simp
    then have stop: "\<not> goes_on (?v el)" by (simp add: goes_on_def)
    show ?thesis
      using callback_attrs_stops_at [OF True stop split] v by simp
  next
    case False
    from first_stop [OF False] obtain pre1 el1 rest1 where
      s1: "pre = pre1 @ el1 # rest1"
      and stop1: "\<not> goes_on (?v el1)"
      and pre1: "\<forall>e\<in>set pre1. goes_on (?v e)"
      by blast
    have "el1 \<in> set pre" using s1 by simp
    with nofail have "\<forall>r. ?v el1 \<noteq> Goto_fail r" by blast
    with normal_mode_verdicts [OF normal stop1] have v1: "?v el1 = Return_success" by blast
    have split1: "elements ?msg = pre1 @ el1 # (rest1 @ el # rest)"
      using split s1 by simp
    show ?thesis
      using callback_attrs_stops_at [OF pre1 stop1 split1] v1 by simp
  qed
  have part2a: "?v el = Mark_continue"
    if "\<not> dsdb_attr_in_parse_tree E (op_search_tree (req ac)) (el_name el)"
    using denied_verdict [OF denied] that by simp
  have part2b: "aclread_callback_attrs K E ac sd sid oc ?msg
      = Send_entry \<lparr>dn = dn ?msg,
          elements =
            filter (\<lambda>el. \<not> aclread_is_inaccessible K el)
              (map (aclread_element_after K E ac sd sid oc) pre)
            @ filter (\<lambda>el. \<not> aclread_is_inaccessible K el)
                (map (aclread_element_after K E ac sd sid oc) rest)\<rparr>"
    if tree: "\<not> dsdb_attr_in_parse_tree E (op_search_tree (req ac)) (el_name el)"
      and others: "\<forall>e\<in>set (pre @ rest). goes_on (?v e)"
  proof -
    have all: "\<forall>e\<in>set (elements ?msg). goes_on (?v e)"
      using others part2a [OF tree] split by (auto simp: goes_on_def)
    have "aclread_is_inaccessible K (aclread_element_after K E ac sd sid oc el)"
      using part2a [OF tree] mark_is_inaccessible [OF flag]
      by (simp add: aclread_element_after_def)
    then show ?thesis
      using callback_attrs_all_go_on [OF all] split by simp
  qed
  show ?thesis using part1 part2a part2b cb by simp
qed

theorem denied_filter_attribute_suppresses_entry_witness:
  "aclread_attr_access demo_consts demo_env (demo_ac [''secret''] 0) 1 None ''user'' ''secret''
     = Attr_checked 0x10 LDB_ERR_INSUFFICIENT_ACCESS_RIGHTS
   \<and> fst (aclread_callback demo_consts demo_env (demo_ac [''secret''] 0) demo_private
          (Some (demo_reply [''CN=u'', ''OU=people'', ''DC=x'']
                   [''cn'', ''secret'', ''objectSid'', ''nTSecurityDescriptor''])))
     = Return_code LDB_SUCCESS
   \<and> aclread_attr_access demo_consts demo_env (demo_ac [''cn''] 0) 1 None ''user'' ''secret''
     = Attr_checked 0x10 LDB_ERR_INSUFFICIENT_ACCESS_RIGHTS
   \<and> fst (aclread_callback demo_consts demo_env (demo_ac [''cn''] 0) demo_private
          (Some (demo_reply [''CN=u'', ''OU=people'', ''DC=x'']
                   [''cn'', ''secret'', ''objectSid'', ''nTSecurityDescriptor''])))
     = Send_entry \<lparr>dn = [''CN=u'', ''OU=people'', ''DC=x''], elements = [demo_el ''cn'']\<rparr>"
proof -
  let ?K = demo_consts and ?E = demo_env
  let ?a = "demo_reply [''CN=u'', ''OU=people'', ''DC=x'']
              [''cn'', ''secret'', ''objectSid'', ''nTSecurityDescriptor'']"
  let ?p' = "\<lparr>enabled = True, sd_cached = Some (1::nat), sd_cached_blob = Some [7]\<rparr>"
  let ?pre = "[demo_el ''cn'']"
  let ?rest = "[demo_el ''objectSid'', demo_el ''nTSecurityDescriptor'']"
  have err: "reply_error ?a = LDB_SUCCESS" by code_simp
  have entry: "reply_type ?a = LDB_REPLY_ENTRY" by code_simp
  have flag: "LDB_FLAG_INTERNAL_INACCESSIBLE_ATTRIBUTE ?K \<noteq> 0" by code_simp
  have oc: "dsdb_get_structural_oc_from_msg ?E (reply_message ?a) = Some ''user''" by code_simp
  have sid: "None = samdb_result_dom_sid ?E (reply_message ?a) ''objectSid''" by code_simp
  have split: "elements (reply_message ?a) = ?pre @ demo_el ''secret'' # ?rest" by code_simp
  have nm: "el_name (demo_el ''secret'') = ''secret''" by code_simp
  have dn: "dn (reply_message ?a) = [''CN=u'', ''OU=people'', ''DC=x'']" by code_simp
  \<comment> \<open>the attribute is a term of the filter\<close>
  let ?ac = "demo_ac [''secret''] 0"
  have normal: "\<not> indirsync ?ac" by code_simp
  have sd: "aclread_get_sd_from_ldb_message ?E ?ac demo_private (reply_message ?a)
              = (LDB_SUCCESS, Some 1, ?p')" by code_simp
  have vis: "fst (aclread_check_parent ?K ?E ?ac (reply_message ?a)) = LDB_SUCCESS" by code_simp
  have denied: "aclread_attr_access ?K ?E ?ac 1 None ''user'' (el_name (demo_el ''secret''))
                  = Attr_checked 0x10 LDB_ERR_INSUFFICIENT_ACCESS_RIGHTS" by code_simp
  have tree: "dsdb_attr_in_parse_tree ?E (op_search_tree (req ?ac)) (el_name (demo_el ''secret''))"
    by code_simp
  have v_cn: "aclread_check_element ?K ?E ?ac 1 None ''user'' (el_name (demo_el ''cn''))
                = Keep_continue" by code_simp
  have nofail: "\<forall>e\<in>set ?pre. \<forall>r. aclread_check_element ?K ?E ?ac 1 None ''user'' (el_name e)
                  \<noteq> Goto_fail r"
    using v_cn by simp
  from denied_filter_attribute_suppresses_entry
         [OF err entry normal flag sd oc disjI2 [OF disjI2 [OF vis]] sid split denied]
       tree nofail
  have r1: "fst (aclread_callback ?K ?E ?ac demo_private (Some ?a)) = Return_code LDB_SUCCESS"
    by blast
  \<comment> \<open>the attribute is not a term of the filter\<close>
  let ?ac2 = "demo_ac [''cn''] 0"
  have normal2: "\<not> indirsync ?ac2" by code_simp
  have sd2: "aclread_get_sd_from_ldb_message ?E ?ac2 demo_private (reply_message ?a)
              = (LDB_SUCCESS, Some 1, ?p')" by code_simp
  have vis2: "fst (aclread_check_parent ?K ?E ?ac2 (reply_message ?a)) = LDB_SUCCESS"
    by code_simp
  have denied2: "aclread_attr_access ?K ?E ?ac2 1 None ''user'' (el_name (demo_el ''secret''))
                  = Attr_checked 0x10 LDB_ERR_INSUFFICIENT_ACCESS_RIGHTS" by code_simp
  have tree2: "\<not> dsdb_attr_in_parse_tree ?E (op_search_tree (req ?ac2))
                   (el_name (demo_el ''secret''))"
    by code_simp
  have others: "list_all (\<lambda>e. goes_on (aclread_check_element ?K ?E ?ac2 1 None ''user'' (el_name e)))
                  (?pre @ ?rest)"
    by code_simp
  have others': "\<forall>e\<in>set (?pre @ ?rest).
                   goes_on (aclread_check_element ?K ?E ?ac2 1 None ''user'' (el_name e))"
    using others unfolding list_all_iff .
  have out: "filter (\<lambda>el. \<not> aclread_is_inaccessible ?K el)
               (map (aclread_element_after ?K ?E ?ac2 1 None ''user'') ?pre)
             @ filter (\<lambda>el. \<not> aclread_is_inaccessible ?K el)
                 (map (aclread_element_after ?K ?E ?ac2 1 None ''user'') ?rest)
             = [demo_el ''cn'']"
    by code_simp
  from denied_filter_attribute_suppresses_entry
         [OF err entry normal2 flag sd2 oc disjI2 [OF disjI2 [OF vis2]] sid split denied2]
       tree2 others'
  have r2: "fst (aclread_callback ?K ?E ?ac2 demo_private (Some ?a))
              = Send_entry \<lparr>dn = [''CN=u'', ''OU=people'', ''DC=x''], elements = [demo_el ''cn'']\<rparr>"
    unfolding out dn by blast
  show ?thesis using r1 r2 denied denied2 unfolding nm by simp
qed

subsection \<open>Dirsync mode: the loop is left at a denied attribute of the filter\<close>

text \<open>
  C9.  In dirsync mode, for an entry that reaches the loop: when the loop arrives at an
  element \<open>el\<close> on which the access check is called and returns insufficient access
  rights, and the name of \<open>el\<close> is a term of the search filter, the loop ends there.  The
  message sent holds the elements before \<open>el\<close> by their verdicts, and \<open>el\<close> and all the
  elements after it as they came, without the elements named \<^verbatim>\<open>replPropertyMetaData\<close>: so
  every later element that is not \<^verbatim>\<open>replPropertyMetaData\<close> (and does not carry the marker
  already) is in the message, the ones added by the module too; and the access check is not
  called for the later elements, the result being the same for any check that agrees on
  the elements up to \<open>el\<close>.
\<close>

theorem dirsync_break_keeps_later_attributes:
  assumes err: "reply_error a = LDB_SUCCESS"
      and entry: "reply_type a = LDB_REPLY_ENTRY"
      and dirsync: "indirsync ac"
      and sd: "aclread_get_sd_from_ldb_message E ac p (reply_message a) = (LDB_SUCCESS, Some sd, p')"
      and oc: "dsdb_get_structural_oc_from_msg E (reply_message a) = Some oc"
      and visible: "ldb_dn_is_null E (dn (reply_message a))
           \<or> ldb_msg_find_attr_as_uint E (reply_message a) ''instanceType'' 0
               AND INSTANCE_TYPE_IS_NC_HEAD K \<noteq> 0
           \<or> fst (aclread_check_parent K E ac (reply_message a)) = LDB_SUCCESS"
      and sid: "sid = samdb_result_dom_sid E (reply_message a) ''objectSid''"
      and split: "elements (reply_message a) = pre @ el # rest"
      and pre: "\<forall>e\<in>set pre. goes_on (aclread_check_element K E ac sd sid oc (el_name e))"
      and denied: "aclread_attr_access K E ac sd sid oc (el_name el)
                     = Attr_checked m LDB_ERR_INSUFFICIENT_ACCESS_RIGHTS"
      and tree: "dsdb_attr_in_parse_tree E (op_search_tree (req ac)) (el_name el)"
  shows "fst (aclread_callback K E ac p (Some a))
           = Send_entry \<lparr>dn = dn (reply_message a),
               elements =
                 filter (\<lambda>el. \<not> aclread_is_inaccessible K el)
                   (filter (\<lambda>el. ldb_attr_cmp E (el_name el) ''replPropertyMetaData'' \<noteq> 0)
                      (map (aclread_element_after K E ac sd sid oc) pre @ el # rest))\<rparr>
       \<and> (\<forall>ret_msg. fst (aclread_callback K E ac p (Some a)) = Send_entry ret_msg
            \<longrightarrow> (\<forall>e\<in>set rest.
                   ldb_attr_cmp E (el_name e) ''replPropertyMetaData'' \<noteq> 0
                   \<and> \<not> aclread_is_inaccessible K e
                   \<longrightarrow> e \<in> set (elements ret_msg)))
       \<and> (\<forall>f. (\<forall>e\<in>set (pre @ [el]). \<forall>attr m.
                  dsdb_attribute_by_lDAPDisplayName E (el_name e) = Some attr
                  \<longrightarrow> f sd sid m attr oc = acl_check_access_on_attribute E sd sid m attr oc)
            \<longrightarrow> fst (aclread_callback K (E\<lparr>acl_check_access_on_attribute := f\<rparr>) ac p (Some a))
                = fst (aclread_callback K E ac p (Some a)))"
proof -
  let ?msg = "reply_message a"
  have main: "fst (aclread_callback K E' ac p (Some a))
           = Send_entry \<lparr>dn = dn ?msg,
               elements =
                 filter (\<lambda>el. \<not> aclread_is_inaccessible K el)
                   (filter (\<lambda>el. ldb_attr_cmp E' (el_name el) ''replPropertyMetaData'' \<noteq> 0)
                      (map (aclread_element_after K E' ac sd sid oc) pre @ el # rest))\<rparr>"
    if sd': "aclread_get_sd_from_ldb_message E' ac p ?msg = (LDB_SUCCESS, Some sd, p')"
      and oc': "dsdb_get_structural_oc_from_msg E' ?msg = Some oc"
      and visible': "ldb_dn_is_null E' (dn ?msg)
           \<or> ldb_msg_find_attr_as_uint E' ?msg ''instanceType'' 0
               AND INSTANCE_TYPE_IS_NC_HEAD K \<noteq> 0
           \<or> fst (aclread_check_parent K E' ac ?msg) = LDB_SUCCESS"
      and sid': "sid = samdb_result_dom_sid E' ?msg ''objectSid''"
      and pre': "\<forall>e\<in>set pre. goes_on (aclread_check_element K E' ac sd sid oc (el_name e))"
      and v': "aclread_check_element K E' ac sd sid oc (el_name el) = Break_loop"
    for E' :: "('a, 'b, 'c, 'd, 'e) acl_env"
  proof -
    have stop: "\<not> goes_on (aclread_check_element K E' ac sd sid oc (el_name el))"
      using v' by (simp add: goes_on_def)
    show ?thesis
      unfolding sid'
      using callback_attrs_stops_at [OF pre' stop split] v'
      by (simp add: callback_entry_reply [OF err entry]
            callback_entry_visible [OF sd' oc' visible'] sid' [symmetric])
  qed
  have v: "aclread_check_element K E ac sd sid oc (el_name el) = Break_loop"
    using denied_verdict [OF denied] tree dirsync by simp
  have first: "fst (aclread_callback K E ac p (Some a))
           = Send_entry \<lparr>dn = dn ?msg,
               elements =
                 filter (\<lambda>el. \<not> aclread_is_inaccessible K el)
                   (filter (\<lambda>el. ldb_attr_cmp E (el_name el) ''replPropertyMetaData'' \<noteq> 0)
                      (map (aclread_element_after K E ac sd sid oc) pre @ el # rest))\<rparr>"
    by (rule main [OF sd oc visible sid pre v])
  have second: "e \<in> set (elements ret_msg)"
    if "fst (aclread_callback K E ac p (Some a)) = Send_entry ret_msg"
      and "e \<in> set rest"
      and "ldb_attr_cmp E (el_name e) ''replPropertyMetaData'' \<noteq> 0"
      and "\<not> aclread_is_inaccessible K e"
    for ret_msg e
    using that first by auto
  have third: "fst (aclread_callback K (E\<lparr>acl_check_access_on_attribute := f\<rparr>) ac p (Some a))
                = fst (aclread_callback K E ac p (Some a))"
    if agree: "\<forall>e\<in>set (pre @ [el]). \<forall>attr m.
                  dsdb_attribute_by_lDAPDisplayName E (el_name e) = Some attr
                  \<longrightarrow> f sd sid m attr oc = acl_check_access_on_attribute E sd sid m attr oc"
    for f
  proof -
    let ?E' = "E\<lparr>acl_check_access_on_attribute := f\<rparr>"
    have same: "aclread_check_element K ?E' ac sd sid oc (el_name e)
                  = aclread_check_element K E ac sd sid oc (el_name e)"
      if "e \<in> set (pre @ [el])" for e
      using agree that by (intro check_element_other_check) blast
    have after: "map (aclread_element_after K ?E' ac sd sid oc) pre
                   = map (aclread_element_after K E ac sd sid oc) pre"
      using same by (simp add: aclread_element_after_def)
    have pre': "\<forall>e\<in>set pre. goes_on (aclread_check_element K ?E' ac sd sid oc (el_name e))"
      using pre same by simp
    have v': "aclread_check_element K ?E' ac sd sid oc (el_name el) = Break_loop"
      using v same by simp
    have "fst (aclread_callback K ?E' ac p (Some a))
           = Send_entry \<lparr>dn = dn ?msg,
               elements =
                 filter (\<lambda>el. \<not> aclread_is_inaccessible K el)
                   (filter (\<lambda>el. ldb_attr_cmp ?E' (el_name el) ''replPropertyMetaData'' \<noteq> 0)
                      (map (aclread_element_after K ?E' ac sd sid oc) pre @ el # rest))\<rparr>"
      using sd oc visible sid by (intro main [OF _ _ _ _ pre' v']) simp_all
    then show ?thesis using first after by simp
  qed
  show ?thesis using first second third by blast
qed

theorem dirsync_break_keeps_later_attributes_witness:
  "aclread_attr_access demo_consts demo_env (demo_ac [''secret''] 1) 1 None ''user'' ''secret''
     = Attr_checked 0x10 LDB_ERR_INSUFFICIENT_ACCESS_RIGHTS
   \<and> added_by_module demo_env (demo_ac [''secret''] 1) ''objectSid''
   \<and> fst (aclread_callback demo_consts demo_env (demo_ac [''secret''] 1) demo_private
          (Some (demo_reply [''CN=u'', ''OU=people'', ''DC=x'']
                   [''cn'', ''secret'', ''objectSid'', ''broken'', ''replPropertyMetaData'',
                    ''nTSecurityDescriptor''])))
     = Send_entry \<lparr>dn = [''CN=u'', ''OU=people'', ''DC=x''],
         elements = [demo_el ''cn'', demo_el ''secret'', demo_el ''objectSid'',
                     demo_el ''broken'', demo_el ''nTSecurityDescriptor'']\<rparr>"
proof -
  let ?K = demo_consts and ?E = demo_env
  let ?ac = "demo_ac [''secret''] 1"
  let ?a = "demo_reply [''CN=u'', ''OU=people'', ''DC=x'']
              [''cn'', ''secret'', ''objectSid'', ''broken'', ''replPropertyMetaData'',
               ''nTSecurityDescriptor'']"
  let ?p' = "\<lparr>enabled = True, sd_cached = Some (1::nat), sd_cached_blob = Some [7]\<rparr>"
  let ?pre = "[demo_el ''cn'']"
  let ?rest = "[demo_el ''objectSid'', demo_el ''broken'', demo_el ''replPropertyMetaData'',
                demo_el ''nTSecurityDescriptor'']"
  have err: "reply_error ?a = LDB_SUCCESS" by code_simp
  have entry: "reply_type ?a = LDB_REPLY_ENTRY" by code_simp
  have dirsync: "indirsync ?ac" by code_simp
  have sd: "aclread_get_sd_from_ldb_message ?E ?ac demo_private (reply_message ?a)
              = (LDB_SUCCESS, Some 1, ?p')" by code_simp
  have oc: "dsdb_get_structural_oc_from_msg ?E (reply_message ?a) = Some ''user''" by code_simp
  have vis: "fst (aclread_check_parent ?K ?E ?ac (reply_message ?a)) = LDB_SUCCESS" by code_simp
  have sid: "None = samdb_result_dom_sid ?E (reply_message ?a) ''objectSid''" by code_simp
  have split: "elements (reply_message ?a) = ?pre @ demo_el ''secret'' # ?rest" by code_simp
  have nm: "el_name (demo_el ''secret'') = ''secret''" by code_simp
  have dn: "dn (reply_message ?a) = [''CN=u'', ''OU=people'', ''DC=x'']" by code_simp
  have pre: "list_all (\<lambda>e. goes_on (aclread_check_element ?K ?E ?ac 1 None ''user'' (el_name e)))
               ?pre"
    by code_simp
  have pre': "\<forall>e\<in>set ?pre. goes_on (aclread_check_element ?K ?E ?ac 1 None ''user'' (el_name e))"
    using pre unfolding list_all_iff .
  have denied: "aclread_attr_access ?K ?E ?ac 1 None ''user'' (el_name (demo_el ''secret''))
                  = Attr_checked 0x10 LDB_ERR_INSUFFICIENT_ACCESS_RIGHTS" by code_simp
  have tree: "dsdb_attr_in_parse_tree ?E (op_search_tree (req ?ac)) (el_name (demo_el ''secret''))"
    by code_simp
  have added: "added_by_module ?E ?ac ''objectSid''" by code_simp
  have out: "filter (\<lambda>el. \<not> aclread_is_inaccessible ?K el)
               (filter (\<lambda>el. ldb_attr_cmp ?E (el_name el) ''replPropertyMetaData'' \<noteq> 0)
                  (map (aclread_element_after ?K ?E ?ac 1 None ''user'') ?pre
                   @ demo_el ''secret'' # ?rest))
             = [demo_el ''cn'', demo_el ''secret'', demo_el ''objectSid'',
                demo_el ''broken'', demo_el ''nTSecurityDescriptor'']"
    by code_simp
  from dirsync_break_keeps_later_attributes
         [OF err entry dirsync sd oc disjI2 [OF disjI2 [OF vis]] sid split pre' denied tree]
  have "fst (aclread_callback ?K ?E ?ac demo_private (Some ?a))
          = Send_entry \<lparr>dn = [''CN=u'', ''OU=people'', ''DC=x''],
              elements = [demo_el ''cn'', demo_el ''secret'', demo_el ''objectSid'',
                          demo_el ''broken'', demo_el ''nTSecurityDescriptor'']\<rparr>"
    unfolding out dn by blast
  then show ?thesis using denied added unfolding nm by simp
qed

subsection \<open>The access mask of an attribute\<close>

text \<open>
  C5, as the code has it.  The mask of an attribute is: for \<^verbatim>\<open>nTSecurityDescriptor\<close>, read
  control if the descriptor flags ask for owner, group or DACL, with system security if they
  ask for the SACL; read property for every other attribute; and, for any attribute that the
  schema marks confidential, control access in addition.  The test for a zero mask comes
  last, on the mask with the confidential bit in it: an attribute that was not added by the
  module and whose mask is zero is marked inaccessible, and the access check is not called
  (the verdict is the same whatever the check would return); any other such attribute is
  checked with exactly this mask.
\<close>

theorem access_mask_and_zero_mask:
  "aclread_access_mask K ac attr is_sd
     = required_access_mask K (sd_flags ac) is_sd
         (searchFlags attr AND SEARCH_FLAG_CONFIDENTIAL K \<noteq> 0)
   \<and> aclread_attr_access K E ac sd sid oc nm
     = (case dsdb_attribute_by_lDAPDisplayName E nm of
          None \<Rightarrow> Attr_unknown
        | Some a \<Rightarrow>
            if added_by_module E ac nm then Attr_marked
            else if required_access_mask K (sd_flags ac)
                      (ldb_attr_cmp E ''nTSecurityDescriptor'' nm = 0)
                      (searchFlags a AND SEARCH_FLAG_CONFIDENTIAL K \<noteq> 0) = 0
                 then Attr_marked
                 else Attr_checked
                        (required_access_mask K (sd_flags ac)
                           (ldb_attr_cmp E ''nTSecurityDescriptor'' nm = 0)
                           (searchFlags a AND SEARCH_FLAG_CONFIDENTIAL K \<noteq> 0))
                        (acl_check_access_on_attribute E sd sid
                           (required_access_mask K (sd_flags ac)
                              (ldb_attr_cmp E ''nTSecurityDescriptor'' nm = 0)
                              (searchFlags a AND SEARCH_FLAG_CONFIDENTIAL K \<noteq> 0))
                           a oc))
   \<and> (dsdb_attribute_by_lDAPDisplayName E nm = Some attr
        \<and> required_access_mask K (sd_flags ac)
              (ldb_attr_cmp E ''nTSecurityDescriptor'' nm = 0)
              (searchFlags attr AND SEARCH_FLAG_CONFIDENTIAL K \<noteq> 0) = 0
        \<longrightarrow> (\<forall>f. aclread_check_element K (E\<lparr>acl_check_access_on_attribute := f\<rparr>) ac sd sid oc nm
                    = Mark_continue))"
proof -
  have second: "aclread_attr_access K E' ac sd sid oc nm
     = (case dsdb_attribute_by_lDAPDisplayName E' nm of
          None \<Rightarrow> Attr_unknown
        | Some a \<Rightarrow>
            if added_by_module E' ac nm then Attr_marked
            else if required_access_mask K (sd_flags ac)
                      (ldb_attr_cmp E' ''nTSecurityDescriptor'' nm = 0)
                      (searchFlags a AND SEARCH_FLAG_CONFIDENTIAL K \<noteq> 0) = 0
                 then Attr_marked
                 else Attr_checked
                        (required_access_mask K (sd_flags ac)
                           (ldb_attr_cmp E' ''nTSecurityDescriptor'' nm = 0)
                           (searchFlags a AND SEARCH_FLAG_CONFIDENTIAL K \<noteq> 0))
                        (acl_check_access_on_attribute E' sd sid
                           (required_access_mask K (sd_flags ac)
                              (ldb_attr_cmp E' ''nTSecurityDescriptor'' nm = 0)
                              (searchFlags a AND SEARCH_FLAG_CONFIDENTIAL K \<noteq> 0))
                           a oc))"
    for E' :: "('a, 'b, 'c, 'd, 'e) acl_env"
    by (auto simp: aclread_attr_access_def access_mask_required added_by_module_def Let_def
             split: option.splits)
  have third: "aclread_check_element K (E\<lparr>acl_check_access_on_attribute := f\<rparr>) ac sd sid oc nm
                 = Mark_continue"
    if "dsdb_attribute_by_lDAPDisplayName E nm = Some attr"
      and "required_access_mask K (sd_flags ac)
              (ldb_attr_cmp E ''nTSecurityDescriptor'' nm = 0)
              (searchFlags attr AND SEARCH_FLAG_CONFIDENTIAL K \<noteq> 0) = 0"
    for f
    using that
    by (simp add: aclread_check_element_def second [of "E\<lparr>acl_check_access_on_attribute := f\<rparr>"]
          added_by_module_def)
  show ?thesis using access_mask_required second [of E] third by blast
qed

theorem access_mask_and_zero_mask_witness:
  "dsdb_attribute_by_lDAPDisplayName demo_env ''nTSecurityDescriptor''
     = Some \<lparr>lDAPDisplayName = ''nTSecurityDescriptor'', searchFlags = 0\<rparr>
   \<and> required_access_mask demo_consts (sd_flags (plain_ac 0)) True False = 0
   \<and> aclread_check_element demo_consts
       (demo_env\<lparr>acl_check_access_on_attribute := (\<lambda>sd sid m a oc. LDB_ERR_OTHER 1)\<rparr>)
       (plain_ac 0) 1 None ''user'' ''nTSecurityDescriptor'' = Mark_continue"
proof -
  let ?attr = "\<lparr>lDAPDisplayName = ''nTSecurityDescriptor'', searchFlags = 0\<rparr>"
  have a: "dsdb_attribute_by_lDAPDisplayName demo_env ''nTSecurityDescriptor'' = Some ?attr"
    by code_simp
  have m: "required_access_mask demo_consts (sd_flags (plain_ac 0))
              (ldb_attr_cmp demo_env ''nTSecurityDescriptor'' ''nTSecurityDescriptor'' = 0)
              (searchFlags ?attr AND SEARCH_FLAG_CONFIDENTIAL demo_consts \<noteq> 0) = 0"
    by code_simp
  have m': "required_access_mask demo_consts (sd_flags (plain_ac 0)) True False = 0"
    by code_simp
  from access_mask_and_zero_mask
         [of demo_consts "plain_ac 0" ?attr True demo_env 1 None "''user''"
             "''nTSecurityDescriptor''"] a m
  have "aclread_check_element demo_consts
       (demo_env\<lparr>acl_check_access_on_attribute := (\<lambda>sd sid m a oc. LDB_ERR_OTHER 1)\<rparr>)
       (plain_ac 0) 1 None ''user'' ''nTSecurityDescriptor'' = Mark_continue"
    by blast
  then show ?thesis using a m' by simp
qed

text \<open>
  The test for zero is not made on the mask of the descriptor flags alone: with no flag
  set and a schema that marks \<^verbatim>\<open>nTSecurityDescriptor\<close> confidential, the mask from the flags
  is zero, and yet the access check is called, with control access, and the attribute is
  kept when the check grants it.
\<close>

theorem confidential_descriptor_is_checked:
  "sd_flags (plain_ac 0) = 0
   \<and> required_access_mask demo_consts (sd_flags (plain_ac 0)) True False = 0
   \<and> aclread_attr_access demo_consts conf_env (plain_ac 0) 1 None ''user''
       ''nTSecurityDescriptor'' = Attr_checked 0x100 LDB_SUCCESS
   \<and> aclread_check_element demo_consts conf_env (plain_ac 0) 1 None ''user''
       ''nTSecurityDescriptor'' = Keep_continue"
  by code_simp

subsection \<open>The cache of the last parent\<close>

text \<open>
  C7.  When the access check on a DN gives the same verdict for DNs that \<^verbatim>\<open>ldb_dn_compare\<close>
  finds equal, and the cache slot of the context holds the verdict of its DN (as it does
  in the context a search starts with, whose slot is empty), then \<open>aclread_check_parent\<close>
  returns what the check without the cache returns for the parent of the entry, and leaves
  the slot valid, as the whole callback does; so over the entries of one search, one after
  the other, every verdict is the verdict of the check without the cache.
\<close>

theorem parent_cache_gives_uncached_verdict:
  assumes valid: "parent_cache_valid K E ac"
      and same: "\<forall>a b. ldb_dn_compare E a b = 0
             \<longrightarrow> dsdb_module_check_access_on_dn E (Some a) (SEC_ADS_LIST K)
                 = dsdb_module_check_access_on_dn E (Some b) (SEC_ADS_LIST K)"
  shows "fst (aclread_check_parent K E ac msg) = parent_check_uncached K E msg
       \<and> parent_cache_valid K E (snd (aclread_check_parent K E ac msg))
       \<and> parent_cache_valid K E (fst (snd (aclread_callback K E ac p ares)))
       \<and> aclread_check_parents K E ac msgs = map (parent_check_uncached K E) msgs
       \<and> parent_cache_valid K E (aclread_context_zero rq)"
  using check_parent_correct [OF valid same] callback_cache_valid [OF valid same]
    check_parents_correct [OF valid same]
  by (simp add: parent_cache_valid_def aclread_context_zero_def)

theorem parent_cache_gives_uncached_verdict_witness:
  "parent_cache_valid demo_consts demo_env (demo_ac [] 0)
   \<and> aclread_check_parents demo_consts demo_env (demo_ac [] 0)
       [demo_msg [''CN=a'', ''OU=hidden'', ''DC=x''] [],
        demo_msg [''CN=b'', ''OU=hidden'', ''DC=x''] [],
        demo_msg [''CN=c'', ''CN=b'', ''OU=hidden'', ''DC=x''] [],
        demo_msg [''CN=d'', ''OU=people'', ''DC=x''] []]
     = [LDB_ERR_INSUFFICIENT_ACCESS_RIGHTS, LDB_ERR_INSUFFICIENT_ACCESS_RIGHTS,
        LDB_SUCCESS, LDB_SUCCESS]
   \<and> map (parent_check_uncached demo_consts demo_env)
       [demo_msg [''CN=a'', ''OU=hidden'', ''DC=x''] [],
        demo_msg [''CN=b'', ''OU=hidden'', ''DC=x''] [],
        demo_msg [''CN=c'', ''CN=b'', ''OU=hidden'', ''DC=x''] [],
        demo_msg [''CN=d'', ''OU=people'', ''DC=x''] []]
     = [LDB_ERR_INSUFFICIENT_ACCESS_RIGHTS, LDB_ERR_INSUFFICIENT_ACCESS_RIGHTS,
        LDB_SUCCESS, LDB_SUCCESS]"
proof -
  let ?msgs = "[demo_msg [''CN=a'', ''OU=hidden'', ''DC=x''] [],
        demo_msg [''CN=b'', ''OU=hidden'', ''DC=x''] [],
        demo_msg [''CN=c'', ''CN=b'', ''OU=hidden'', ''DC=x''] [],
        demo_msg [''CN=d'', ''OU=people'', ''DC=x''] []]"
  have valid: "parent_cache_valid demo_consts demo_env (demo_ac [] 0)" by code_simp
  have same: "\<forall>a b. ldb_dn_compare demo_env a b = 0
             \<longrightarrow> dsdb_module_check_access_on_dn demo_env (Some a) (SEC_ADS_LIST demo_consts)
                 = dsdb_module_check_access_on_dn demo_env (Some b) (SEC_ADS_LIST demo_consts)"
    by (simp add: demo_env_def)
  have u: "map (parent_check_uncached demo_consts demo_env) ?msgs
     = [LDB_ERR_INSUFFICIENT_ACCESS_RIGHTS, LDB_ERR_INSUFFICIENT_ACCESS_RIGHTS,
        LDB_SUCCESS, LDB_SUCCESS]"
    by code_simp
  from parent_cache_gives_uncached_verdict [OF valid same, where msgs = ?msgs]
  have "aclread_check_parents demo_consts demo_env (demo_ac [] 0) ?msgs
          = map (parent_check_uncached demo_consts demo_env) ?msgs"
    by blast
  then show ?thesis using valid u by simp
qed

subsection \<open>The attributes added to the request\<close>

text \<open>
  C8.  When \<open>aclread_search\<close> sends a new request down (and the wildcard is not a match for
  the name \<^verbatim>\<open>nTSecurityDescriptor\<close>): the flag \<open>added_nTSecurityDescriptor\<close> is set if and
  only if the caller did not ask for \<^verbatim>\<open>nTSecurityDescriptor\<close> and it is not the case that
  explicit descriptor flags came with a request for all attributes; and the list sent down
  is the list of the caller with the names of the set flags added at its end,
  \<^verbatim>\<open>nTSecurityDescriptor\<close> last, exactly when its flag is set.
\<close>

theorem descriptor_appended_iff_needed:
  assumes search: "aclread_search K E p rq = Next_down down_attrs ac"
      and star: "ldb_attr_cmp E ''*'' ''nTSecurityDescriptor'' \<noteq> 0"
  shows "added_nTSecurityDescriptor ac
           = (\<not> ldb_attr_in_list E (op_search_attrs rq) ''nTSecurityDescriptor''
              \<and> \<not> (request_explicit_sd_flags rq \<and> request_all_attrs E rq))
       \<and> down_attrs
           = Some (request_attr_list rq
                   @ (if added_instanceType ac then [''instanceType''] else [])
                   @ (if added_objectSid ac then [''objectSid''] else [])
                   @ (if added_objectClass ac then [''objectClass''] else [])
                   @ (if added_nTSecurityDescriptor ac then [''nTSecurityDescriptor''] else []))"
proof -
  note f = search_down_fields [OF search_next_down [OF search]]
  show ?thesis
    using f(1) f(7) in_list_request_attr_list [OF star, of rq] by simp
qed

theorem descriptor_appended_iff_needed_witness:
  "aclread_search demo_consts demo_env (Some demo_private) (demo_req [''cn''] 0)
     = Next_down (Some [''cn'', ''secret'', ''instanceType'', ''objectSid'', ''objectClass'',
                        ''nTSecurityDescriptor''])
         (demo_ac [''cn''] 0)
   \<and> added_nTSecurityDescriptor (demo_ac [''cn''] 0)
   \<and> \<not> ldb_attr_in_list demo_env (op_search_attrs (demo_req [''cn''] 0)) ''nTSecurityDescriptor''
   \<and> \<not> request_all_attrs demo_env (demo_req [''cn''] 0)"
proof -
  have search: "aclread_search demo_consts demo_env (Some demo_private) (demo_req [''cn''] 0)
     = Next_down (Some [''cn'', ''secret'', ''instanceType'', ''objectSid'', ''objectClass'',
                        ''nTSecurityDescriptor''])
         (demo_ac [''cn''] 0)"
    by code_simp
  have star: "ldb_attr_cmp demo_env ''*'' ''nTSecurityDescriptor'' \<noteq> 0" by code_simp
  have nall: "\<not> request_all_attrs demo_env (demo_req [''cn''] 0)" by code_simp
  from descriptor_appended_iff_needed [OF search star]
  have "added_nTSecurityDescriptor (demo_ac [''cn''] 0)
           = (\<not> ldb_attr_in_list demo_env (op_search_attrs (demo_req [''cn''] 0))
                  ''nTSecurityDescriptor''
              \<and> \<not> (request_explicit_sd_flags (demo_req [''cn''] 0)
                     \<and> request_all_attrs demo_env (demo_req [''cn''] 0)))"
    by blast
  moreover have "added_nTSecurityDescriptor (demo_ac [''cn''] 0)" by code_simp
  ultimately show ?thesis using search nall by simp
qed

subsection \<open>The base of the search\<close>

text \<open>
  C6, as the code has it.  For a request that is filtered (the module is enabled, the
  request is untrusted and not a system request), with a base that is neither special nor
  null, that is found, and whose instance type is not zero and has not the bit of a naming
  context head: if the access check for listing the parent of the base returns insufficient
  access rights, the request is ended with "no such object"; if it returns any other code
  but success, the request is ended with that code.
\<close>

theorem base_parent_denial_is_no_such_object:
  assumes priv: "p = Some pd"
      and on: "enabled pd"
      and user: "\<not> dsdb_module_am_system E" "\<not> as_system rq" "is_untrusted rq"
      and not_special: "\<not> ldb_dn_is_special E (op_search_base rq)"
      and not_null: "\<not> ldb_dn_is_null E (op_search_base rq)"
      and found: "dsdb_module_search_dn E (op_search_base rq) = (LDB_SUCCESS, res_msg)"
      and typed: "ldb_msg_find_attr_as_uint E res_msg ''instanceType'' 0 \<noteq> 0"
      and not_head: "ldb_msg_find_attr_as_uint E res_msg ''instanceType'' 0
                       AND INSTANCE_TYPE_IS_NC_HEAD K = 0"
  shows "(dsdb_module_check_access_on_dn E (ldb_dn_get_parent E (op_search_base rq))
            (SEC_ADS_LIST K) = LDB_ERR_INSUFFICIENT_ACCESS_RIGHTS
          \<longrightarrow> aclread_search K E p rq = Search_done LDB_ERR_NO_SUCH_OBJECT)
       \<and> (dsdb_module_check_access_on_dn E (ldb_dn_get_parent E (op_search_base rq))
            (SEC_ADS_LIST K) \<noteq> LDB_ERR_INSUFFICIENT_ACCESS_RIGHTS
          \<and> dsdb_module_check_access_on_dn E (ldb_dn_get_parent E (op_search_base rq))
              (SEC_ADS_LIST K) \<noteq> LDB_SUCCESS
          \<longrightarrow> aclread_search K E p rq
                = Search_done
                    (dsdb_module_check_access_on_dn E (ldb_dn_get_parent E (op_search_base rq))
                       (SEC_ADS_LIST K)))"
  using assms
  by (simp add: aclread_search_def aclread_search_base_def Let_def)

theorem base_parent_denial_is_no_such_object_witness:
  "dsdb_module_check_access_on_dn typed_env
       (ldb_dn_get_parent typed_env (op_search_base (demo_base_req [''CN=u'', ''OU=hidden'', ''DC=x''])))
       (SEC_ADS_LIST demo_consts) = LDB_ERR_INSUFFICIENT_ACCESS_RIGHTS
   \<and> aclread_search demo_consts typed_env (Some demo_private)
       (demo_base_req [''CN=u'', ''OU=hidden'', ''DC=x''])
     = Search_done LDB_ERR_NO_SUCH_OBJECT
   \<and> dsdb_module_check_access_on_dn typed_env
       (ldb_dn_get_parent typed_env (op_search_base (demo_base_req [''CN=u'', ''OU=down'', ''DC=x''])))
       (SEC_ADS_LIST demo_consts) = LDB_ERR_OTHER 52
   \<and> aclread_search demo_consts typed_env (Some demo_private)
       (demo_base_req [''CN=u'', ''OU=down'', ''DC=x''])
     = Search_done (LDB_ERR_OTHER 52)"
proof -
  let ?K = demo_consts and ?E = typed_env
  let ?r1 = "demo_base_req [''CN=u'', ''OU=hidden'', ''DC=x'']"
  let ?r2 = "demo_base_req [''CN=u'', ''OU=down'', ''DC=x'']"
  let ?m1 = "\<lparr>dn = [''CN=u'', ''OU=hidden'', ''DC=x''], elements = []\<rparr>"
  let ?m2 = "\<lparr>dn = [''CN=u'', ''OU=down'', ''DC=x''], elements = []\<rparr>"
  have on: "enabled demo_private" by code_simp
  have sys: "\<not> dsdb_module_am_system ?E" by code_simp
  have as1: "\<not> as_system ?r1" and as2: "\<not> as_system ?r2" by code_simp+
  have un1: "is_untrusted ?r1" and un2: "is_untrusted ?r2" by code_simp+
  have sp1: "\<not> ldb_dn_is_special ?E (op_search_base ?r1)"
    and sp2: "\<not> ldb_dn_is_special ?E (op_search_base ?r2)" by code_simp+
  have nn1: "\<not> ldb_dn_is_null ?E (op_search_base ?r1)"
    and nn2: "\<not> ldb_dn_is_null ?E (op_search_base ?r2)" by code_simp+
  have f1: "dsdb_module_search_dn ?E (op_search_base ?r1) = (LDB_SUCCESS, ?m1)" by code_simp
  have f2: "dsdb_module_search_dn ?E (op_search_base ?r2) = (LDB_SUCCESS, ?m2)" by code_simp
  have t1: "ldb_msg_find_attr_as_uint ?E ?m1 ''instanceType'' 0 \<noteq> 0"
    and t2: "ldb_msg_find_attr_as_uint ?E ?m2 ''instanceType'' 0 \<noteq> 0" by code_simp+
  have h1: "ldb_msg_find_attr_as_uint ?E ?m1 ''instanceType'' 0
              AND INSTANCE_TYPE_IS_NC_HEAD ?K = 0"
    and h2: "ldb_msg_find_attr_as_uint ?E ?m2 ''instanceType'' 0
              AND INSTANCE_TYPE_IS_NC_HEAD ?K = 0" by code_simp+
  have c1: "dsdb_module_check_access_on_dn ?E (ldb_dn_get_parent ?E (op_search_base ?r1))
              (SEC_ADS_LIST ?K) = LDB_ERR_INSUFFICIENT_ACCESS_RIGHTS" by code_simp
  have c2: "dsdb_module_check_access_on_dn ?E (ldb_dn_get_parent ?E (op_search_base ?r2))
              (SEC_ADS_LIST ?K) = LDB_ERR_OTHER 52" by code_simp
  from base_parent_denial_is_no_such_object [OF refl on sys as1 un1 sp1 nn1 f1 t1 h1] c1
  have r1: "aclread_search ?K ?E (Some demo_private) ?r1 = Search_done LDB_ERR_NO_SUCH_OBJECT"
    by blast
  from base_parent_denial_is_no_such_object [OF refl on sys as2 un2 sp2 nn2 f2 t2 h2] c2
  have r2: "aclread_search ?K ?E (Some demo_private) ?r2 = Search_done (LDB_ERR_OTHER 52)"
    by simp
  show ?thesis using c1 c2 r1 r2 by simp
qed

text \<open>
  The test of line 525 asks for an instance type other than zero before it looks at the bit
  of a naming context head: a base whose instance type reads as zero is not a head by that
  bit, and yet its parent is not checked; with a parent that the user may not list, the
  search goes down all the same.
\<close>

theorem base_without_instance_type_is_not_checked:
  "\<not> ldb_dn_is_null demo_env (op_search_base (demo_base_req [''CN=u'', ''OU=hidden'', ''DC=x'']))
   \<and> \<not> ldb_dn_is_special demo_env
         (op_search_base (demo_base_req [''CN=u'', ''OU=hidden'', ''DC=x'']))
   \<and> dsdb_module_search_dn demo_env
       (op_search_base (demo_base_req [''CN=u'', ''OU=hidden'', ''DC=x'']))
     = (LDB_SUCCESS, \<lparr>dn = [''CN=u'', ''OU=hidden'', ''DC=x''], elements = []\<rparr>)
   \<and> ldb_msg_find_attr_as_uint demo_env
       \<lparr>dn = [''CN=u'', ''OU=hidden'', ''DC=x''], elements = []\<rparr> ''instanceType'' 0
       AND INSTANCE_TYPE_IS_NC_HEAD demo_consts = 0
   \<and> dsdb_module_check_access_on_dn demo_env
       (ldb_dn_get_parent demo_env
          (op_search_base (demo_base_req [''CN=u'', ''OU=hidden'', ''DC=x''])))
       (SEC_ADS_LIST demo_consts) = LDB_ERR_INSUFFICIENT_ACCESS_RIGHTS
   \<and> aclread_search demo_consts demo_env (Some demo_private)
       (demo_base_req [''CN=u'', ''OU=hidden'', ''DC=x''])
     = Next_down
         (Some [''cn'', ''secret'', ''instanceType'', ''objectSid'', ''objectClass'',
                ''nTSecurityDescriptor''])
         ((demo_ac [''cn''] 0)\<lparr>req := demo_base_req [''CN=u'', ''OU=hidden'', ''DC=x'']\<rparr>)"
  by code_simp

subsection \<open>The attributes added by the module are not returned\<close>

text \<open>
  C2, as the code has it.  For the context that \<open>aclread_search\<close> has built (whatever its
  parent cache holds by now) and an entry that the callback forwards: outside of dirsync
  mode, and in dirsync mode when no element of the entry leaves the loop by \<^verbatim>\<open>break\<close>, no
  element of the forwarded message is one that the module has added to the request
  (\<^verbatim>\<open>instanceType\<close>, \<^verbatim>\<open>objectSid\<close>, \<^verbatim>\<open>objectClass\<close> or \<^verbatim>\<open>nTSecurityDescriptor\<close> with its flag
  set); and the flag of a name that the caller has asked for is never set, so that such an
  attribute is not removed by these tests.
\<close>

theorem added_attributes_not_returned:
  assumes search: "aclread_search K E p rq = Next_down down_attrs ac0"
      and ctx: "ac = ac0\<lparr>last_parent_dn := lp, last_parent_check_ret := lr\<rparr>"
      and flag: "LDB_FLAG_INTERNAL_INACCESSIBLE_ATTRIBUTE K \<noteq> 0"
      and send: "fst (aclread_callback K E ac pd (Some a)) = Send_entry ret_msg"
      and sd: "aclread_get_sd_from_ldb_message E ac pd (reply_message a) = (r, Some sd, pd')"
      and oc: "dsdb_get_structural_oc_from_msg E (reply_message a) = Some oc"
      and sid: "sid = samdb_result_dom_sid E (reply_message a) ''objectSid''"
      and nobreak: "\<not> indirsync ac0
           \<or> (\<forall>e\<in>set (elements (reply_message a)).
                 aclread_check_element K E ac0 sd sid oc (el_name e) \<noteq> Break_loop)"
  shows "(\<forall>e\<in>set (elements ret_msg). \<not> added_by_module E ac0 (el_name e))
       \<and> (ldb_attr_in_list E (op_search_attrs rq) ''instanceType'' \<longrightarrow> \<not> added_instanceType ac0)
       \<and> (ldb_attr_in_list E (op_search_attrs rq) ''objectSid'' \<longrightarrow> \<not> added_objectSid ac0)
       \<and> (ldb_attr_in_list E (op_search_attrs rq) ''objectClass'' \<longrightarrow> \<not> added_objectClass ac0)
       \<and> (ldb_attr_in_list E (op_search_attrs rq) ''nTSecurityDescriptor''
            \<longrightarrow> \<not> added_nTSecurityDescriptor ac0)"
proof -
  let ?msg = "reply_message a"
  let ?v = "\<lambda>e. aclread_check_element K E ac sd sid oc (el_name e)"
  have v_eq: "aclread_check_element K E ac sd sid oc nm
                = aclread_check_element K E ac0 sd sid oc nm" for nm
    unfolding ctx by simp
  from callback_send [OF send]
  have "fst (aclread_callback_entry K E ac pd ?msg) = Send_entry ret_msg" by simp
  from callback_entry_send [OF this] sd oc sid
  have attrs: "aclread_callback_attrs K E ac sd sid oc ?msg = Send_entry ret_msg" by auto
  have nb: "\<forall>e\<in>set (elements ?msg). ?v e \<noteq> Break_loop"
    using nobreak normal_mode_no_break [of ac0 K E sd sid oc] v_eq by auto
  from callback_attrs_send_no_break [OF attrs nb]
  have all: "\<forall>e\<in>set (elements ?msg). goes_on (?v e)"
    and ret: "ret_msg = \<lparr>dn = dn ?msg,
                     elements = filter (\<lambda>el. \<not> aclread_is_inaccessible K el)
                                  (map (aclread_element_after K E ac sd sid oc) (elements ?msg))\<rparr>"
    by simp_all
  have first: "\<not> added_by_module E ac0 (el_name e)" if e: "e \<in> set (elements ret_msg)" for e
  proof
    assume added: "added_by_module E ac0 (el_name e)"
    from e ret obtain e0 where e0: "e0 \<in> set (elements ?msg)"
      and ee: "e = aclread_element_after K E ac sd sid oc e0"
      and acc: "\<not> aclread_is_inaccessible K e"
      by auto
    have "added_by_module E ac (el_name e0)" using added ee unfolding ctx by simp
    from added_by_module_marked [OF this] all e0
    have "?v e0 = Mark_continue" by blast
    with ee have "e = aclread_mark_inaccesslible K e0"
      by (simp add: aclread_element_after_def)
    with acc mark_is_inaccessible [OF flag] show False by simp
  qed
  note ac0 = search_down_fields [OF search_next_down [OF search]]
  show ?thesis
    using first ac0(1-4) in_list_request_attr_list_requested [of E rq "''nTSecurityDescriptor''"]
    by blast
qed

theorem added_attributes_not_returned_witness:
  "aclread_search demo_consts demo_env (Some demo_private) (demo_req [''cn''] 0)
     = Next_down (Some [''cn'', ''secret'', ''instanceType'', ''objectSid'', ''objectClass'',
                        ''nTSecurityDescriptor''])
         (demo_ac [''cn''] 0)
   \<and> fst (aclread_callback demo_consts demo_env (demo_ac [''cn''] 0) demo_private
          (Some (demo_reply [''CN=u'', ''OU=people'', ''DC=x'']
                   [''cn'', ''instanceType'', ''objectSid'', ''objectClass'',
                    ''nTSecurityDescriptor''])))
     = Send_entry \<lparr>dn = [''CN=u'', ''OU=people'', ''DC=x''], elements = [demo_el ''cn'']\<rparr>
   \<and> \<not> added_by_module demo_env (demo_ac [''cn''] 0) (el_name (demo_el ''cn''))
   \<and> ldb_attr_in_list demo_env (op_search_attrs (demo_req [''cn''] 0)) ''cn''"
proof -
  let ?K = demo_consts and ?E = demo_env
  let ?ac = "demo_ac [''cn''] 0"
  let ?a = "demo_reply [''CN=u'', ''OU=people'', ''DC=x'']
              [''cn'', ''instanceType'', ''objectSid'', ''objectClass'', ''nTSecurityDescriptor'']"
  let ?ret = "\<lparr>dn = [''CN=u'', ''OU=people'', ''DC=x''], elements = [demo_el ''cn'']\<rparr>"
  have search: "aclread_search ?K ?E (Some demo_private) (demo_req [''cn''] 0)
     = Next_down (Some [''cn'', ''secret'', ''instanceType'', ''objectSid'', ''objectClass'',
                        ''nTSecurityDescriptor'']) ?ac"
    by code_simp
  have ctx: "?ac = ?ac\<lparr>last_parent_dn := None, last_parent_check_ret := LDB_SUCCESS\<rparr>"
    by code_simp
  have flag: "LDB_FLAG_INTERNAL_INACCESSIBLE_ATTRIBUTE ?K \<noteq> 0" by code_simp
  have send: "fst (aclread_callback ?K ?E ?ac demo_private (Some ?a)) = Send_entry ?ret"
    by code_simp
  have sd: "aclread_get_sd_from_ldb_message ?E ?ac demo_private (reply_message ?a)
              = (LDB_SUCCESS, Some 1,
                 \<lparr>enabled = True, sd_cached = Some 1, sd_cached_blob = Some [7]\<rparr>)"
    by code_simp
  have oc: "dsdb_get_structural_oc_from_msg ?E (reply_message ?a) = Some ''user''" by code_simp
  have sid: "None = samdb_result_dom_sid ?E (reply_message ?a) ''objectSid''" by code_simp
  have normal: "\<not> indirsync ?ac" by code_simp
  have req: "ldb_attr_in_list ?E (op_search_attrs (demo_req [''cn''] 0)) ''cn''" by code_simp
  from added_attributes_not_returned [OF search ctx flag send sd oc sid disjI1 [OF normal]]
  have "\<forall>e\<in>set (elements ?ret). \<not> added_by_module ?E ?ac (el_name e)" by blast
  then have "\<not> added_by_module ?E ?ac (el_name (demo_el ''cn''))" by simp
  then show ?thesis using search send req by simp
qed

text \<open>
  In dirsync mode the claim fails when the loop is left by \<^verbatim>\<open>break\<close>: the elements after
  the denied attribute of the filter are sent as they came, here \<^verbatim>\<open>objectSid\<close> and
  \<^verbatim>\<open>nTSecurityDescriptor\<close>, which the module has added.
\<close>

theorem dirsync_break_returns_added_attributes:
  "aclread_search demo_consts demo_env (Some demo_private) (demo_req [''secret''] 1)
     = Next_down (Some [''cn'', ''secret'', ''instanceType'', ''objectSid'', ''objectClass'',
                        ''nTSecurityDescriptor''])
         (demo_ac [''secret''] 1)
   \<and> added_objectSid (demo_ac [''secret''] 1)
   \<and> added_by_module demo_env (demo_ac [''secret''] 1) (el_name (demo_el ''objectSid''))
   \<and> fst (aclread_callback demo_consts demo_env (demo_ac [''secret''] 1) demo_private
          (Some (demo_reply [''CN=u'', ''OU=people'', ''DC=x'']
                   [''secret'', ''cn'', ''objectSid'', ''nTSecurityDescriptor''])))
     = Send_entry \<lparr>dn = [''CN=u'', ''OU=people'', ''DC=x''],
         elements = [demo_el ''secret'', demo_el ''cn'', demo_el ''objectSid'',
                     demo_el ''nTSecurityDescriptor'']\<rparr>"
  by code_simp

end
